theory Spec2Isabelle
  imports Complex_Main "HOL-Library.AList"
begin

section \<open>Session lifecycle manager of biochatter-server\<close>

text \<open>
  This theory embeds \<^verbatim>\<open>src/conversation_manager.py\<close>: the class \<^verbatim>\<open>SessionData\<close> and the
  module-level functions working on the global \<^verbatim>\<open>conversationsDict\<close> under the
  re-entrant lock \<^verbatim>\<open>rlock\<close>. Python exceptions are values of type \<open>error\<close> returned
  on the left of a sum; the module's global state is threaded explicitly as a record
  \<open>world\<close>; everything the module only consumes (the process environment, the clock,
  the conversation engine of the biochatter library, helpers of \<^verbatim>\<open>src.utils\<close>) is a
  field of the record \<open>environment\<close>.
\<close>

subsection \<open>Values, errors, events\<close>

text \<open>JSON-like Python values as far as the module passes them around.\<close>

datatype pyval =
    PNone
  | PBool bool
  | PInt int
  | PFloat real
  | PStr string
  | PList "pyval list"
  | PDict "(string \<times> pyval) list"

datatype error =
    KeyError string
  | TypeError
  | AttributeError
  | AssertionError
  | IndexError
  | External string

text \<open>
  What can be observed of one execution, in order: operations on the lock, calls of
  the logger, and queries sent to the conversation engine (with the history the engine
  holds at that moment and the query text).
\<close>

datatype engine_message = SystemMessage string | AIMessage string | HumanMessage string

datatype event =
    Acquire
  | Release
  | LogInfo
  | LogError error
  | EngineQuery "engine_message list" string

subsection \<open>The conversation engine (external collaborator)\<close>

datatype chatter_class = AzureGptConversation | GptConversation | WasmConversation

record DocumentEmbedder =
  used :: bool
  use_prompt :: bool
  chunk_size :: pyval
  chunk_overlap :: pyval
  split_by_characters :: pyval
  n_results :: pyval
  api_key :: "string option"
  is_azure :: pyval
  azure_deployment :: pyval
  azure_endpoint :: pyval
  connection_args :: pyval

text \<open>
  The state of an engine object that the module reads or writes: its class (for
  \<^verbatim>\<open>isinstance\<close>), whether it has the attribute \<^verbatim>\<open>chat\<close> (for \<^verbatim>\<open>hasattr\<close>), its
  message history and its retrieval agent.
\<close>

record chatter =
  cls :: chatter_class
  model_name :: string
  has_chat :: bool
  messages :: "engine_message list"
  rag_agent :: "DocumentEmbedder option"

record message =
  role :: string
  content :: string

record environment =
  OPENAI_API_TYPE :: string
  OPENAI_DEPLOYMENT_NAME :: string
  OPENAI_MODEL :: string
  OPENAI_API_VERSION :: string
  AZURE_OPENAI_ENDPOINT :: string
  OPENAI_API_KEY :: string
  environ :: "string \<Rightarrow> string option"
  now_ms :: real
  openai_api_key :: "string option"
  get_rag_agent_prompts :: "error + pyval"
  get_azure_embedding_deployment :: "error + (pyval \<times> pyval \<times> pyval)"
  AzureGptConversation_init :: "string \<Rightarrow> string \<Rightarrow> pyval \<Rightarrow> string \<Rightarrow> string \<Rightarrow> error option"
  GptConversation_init :: "string \<Rightarrow> pyval \<Rightarrow> error option"
  WasmConversation_init :: "string \<Rightarrow> error option"
  set_api_key :: "chatter \<Rightarrow> string option \<Rightarrow> string option \<Rightarrow> error + chatter"
  DocumentEmbedder_init :: "DocumentEmbedder \<Rightarrow> error option"
  connect :: "DocumentEmbedder \<Rightarrow> error + DocumentEmbedder"
  query :: "chatter \<Rightarrow> string \<Rightarrow> error + ((string \<times> pyval \<times> pyval) \<times> chatter)"

text \<open>
  The fields of \<open>environment\<close>: the six names imported from \<^verbatim>\<open>src.constants\<close>, the
  mapping \<^verbatim>\<open>os.environ\<close>, the reading \<^verbatim>\<open>datetime.now().timestamp() * 1000\<close> of the clock,
  the global \<^verbatim>\<open>openai.api_key\<close>, the results of the two helpers of \<^verbatim>\<open>src.utils\<close>, and the
  behaviour of the biochatter library: whether each constructor raises on its
  arguments, and what \<^verbatim>\<open>set_api_key\<close>, \<^verbatim>\<open>DocumentEmbedder(...)\<close>, \<^verbatim>\<open>connect\<close> and
  \<^verbatim>\<open>query\<close> do. An engine object is created with an empty history, without the
  attribute \<^verbatim>\<open>chat\<close> and without a retrieval agent. A call of the library
  that raises is taken to leave the object it was called on as it was. The
  environment is what these collaborators are and do during one call of a function of
  the module.
\<close>

definition new_chatter :: "chatter_class \<Rightarrow> string \<Rightarrow> chatter" where
  "new_chatter c m =
     \<lparr>cls = c, model_name = m, has_chat = False, messages = [], rag_agent = None\<rparr>"

text \<open>
  The three append operations of the engine: each adds one entry of its kind at the end
  of the history.
\<close>

definition append_system_message :: "chatter \<Rightarrow> string \<Rightarrow> chatter" where
  "append_system_message ch c = ch\<lparr>messages := messages ch @ [SystemMessage c]\<rparr>"

definition append_ai_message :: "chatter \<Rightarrow> string \<Rightarrow> chatter" where
  "append_ai_message ch c = ch\<lparr>messages := messages ch @ [AIMessage c]\<rparr>"

definition append_user_message :: "chatter \<Rightarrow> string \<Rightarrow> chatter" where
  "append_user_message ch c = ch\<lparr>messages := messages ch @ [HumanMessage c]\<rparr>"

subsection \<open>Python helpers\<close>

fun bind_err :: "error + 'a \<Rightarrow> ('a \<Rightarrow> error + 'b) \<Rightarrow> error + 'b" where
  "bind_err (Inl e) f = Inl e"
| "bind_err (Inr x) f = f x"

definition raise_if :: "error option \<Rightarrow> 'a \<Rightarrow> error + 'a" where
  "raise_if r x = (case r of Some e \<Rightarrow> Inl e | None \<Rightarrow> Inr x)"

text \<open>\<^verbatim>\<open>os.environ[name]\<close>: a missing variable raises \<^verbatim>\<open>KeyError\<close>.\<close>

definition getenv :: "environment \<Rightarrow> string \<Rightarrow> error + string" where
  "getenv env name = (case environ env name of None \<Rightarrow> Inl (KeyError name) | Some v \<Rightarrow> Inr v)"

text \<open>\<^verbatim>\<open>d[key]\<close> on a dictionary.\<close>

definition subscript :: "(string \<times> pyval) list \<Rightarrow> string \<Rightarrow> error + pyval" where
  "subscript d k = (case map_of d k of None \<Rightarrow> Inl (KeyError k) | Some v \<Rightarrow> Inr v)"

text \<open>\<^verbatim>\<open>ragConfig[key]\<close>, where \<^verbatim>\<open>ragConfig\<close> may be \<^verbatim>\<open>None\<close> (then \<^verbatim>\<open>TypeError\<close>).\<close>

definition subscript_opt :: "(string \<times> pyval) list option \<Rightarrow> string \<Rightarrow> error + pyval" where
  "subscript_opt d k = (case d of None \<Rightarrow> Inl TypeError | Some d' \<Rightarrow> subscript d' k)"

text \<open>Truth value of an optional string: \<^verbatim>\<open>None\<close> and \<^verbatim>\<open>""\<close> are false.\<close>

definition falsy :: "string option \<Rightarrow> bool" where
  "falsy s = (s = None \<or> s = Some [])"

text \<open>\<^verbatim>\<open>int(x)\<close> on a float truncates towards zero.\<close>

definition py_int :: "real \<Rightarrow> int" where
  "py_int x = (if 0 \<le> x then \<lfloor>x\<rfloor> else \<lceil>x\<rceil>)"

subsection \<open>SessionData\<close>

definition defaultModelConfig :: "(string \<times> pyval) list" where
  "defaultModelConfig =
     [(''model'', PStr ''gpt-4''),
      (''temperature'', PFloat (7 / 10)),
      (''max_tokens'', PInt 2000),
      (''presence_penalty'', PInt 0),
      (''frequency_penalty'', PInt 0),
      (''sendMemory'', PBool True),
      (''historyMessageCount'', PInt 4),
      (''compressMessageLengthThreshold'', PInt 2000)]"

definition MAX_AGE :: int where
  "MAX_AGE = 3 * 24 * 3600 * 1000"

record SessionData =
  modelConfig :: "(string \<times> pyval) list"
  chatter :: "chatter option"
  sessionId :: string
  createdAt :: int
  refreshedAt :: int
  maxAge :: int

text \<open>\<^verbatim>\<open>SessionData.__init__\<close>\<close>

definition SessionData_init ::
  "environment \<Rightarrow> string \<Rightarrow> (string \<times> pyval) list \<Rightarrow> chatter option \<Rightarrow> SessionData" where
  "SessionData_init env sid cfg ch =
     \<lparr>modelConfig = cfg, chatter = ch, sessionId = sid,
      createdAt = py_int (now_ms env), refreshedAt = py_int (now_ms env), maxAge = MAX_AGE\<rparr>"

text \<open>
  \<^verbatim>\<open>SessionData._setup_messages\<close>: the history is reset, then each message is appended
  by the operation of its role; a message of any other role falls through the chain.
\<close>

fun setup_messages_loop :: "chatter \<Rightarrow> message list \<Rightarrow> chatter" where
  "setup_messages_loop ch [] = ch"
| "setup_messages_loop ch (msg # rest) =
     setup_messages_loop
       (if role msg = ''system'' then append_system_message ch (content msg)
        else if role msg = ''assistant'' then append_ai_message ch (content msg)
        else if role msg = ''user'' then append_user_message ch (content msg)
        else ch)
       rest"

definition setup_messages :: "SessionData \<Rightarrow> message list \<Rightarrow> SessionData" where
  "setup_messages self openai_msgs =
     (case chatter self of
        None \<Rightarrow> self
      | Some ch \<Rightarrow> self\<lparr>chatter := Some (setup_messages_loop (ch\<lparr>messages := []\<rparr>) openai_msgs)\<rparr>)"

datatype chat_return = RetNone | RetFalse | RetReply string pyval

text \<open>
  \<^verbatim>\<open>SessionData.chat\<close>, lines 65 to 96: the guards, the key of the engine and the
  retrieval agent. The result is \<open>Inl\<close> when the method ends there (with what it
  returns or raises, and the object as it is then), \<open>Inr\<close> with the configured object
  when it goes on to the query.
\<close>

definition chat_configure ::
  "environment \<Rightarrow> SessionData \<Rightarrow> message list \<Rightarrow> string option \<Rightarrow>
   (string \<times> pyval) list option \<Rightarrow> bool \<Rightarrow>
   ((error + chat_return) \<times> SessionData) + SessionData" where
  "chat_configure env self msgs authKey ragConfig useRAG =
     (case chatter self of
        None \<Rightarrow> Inl (Inr RetNone, self)
      | Some ch0 \<Rightarrow>
          if msgs = [] then Inl (Inr RetNone, self)
          else
            let key_wanted =
                  (cls ch0 \<noteq> AzureGptConversation \<and> (falsy (openai_api_key env) \<or> \<not> has_chat ch0))
            in
            if key_wanted \<and> falsy authKey then Inl (Inr RetFalse, self)
            else
              (case (if key_wanted then set_api_key env ch0 authKey (Some (sessionId self))
                     else Inr ch0) of
                 Inl e \<Rightarrow> Inl (Inl e, self)
               | Inr ch1 \<Rightarrow>
                  (case
                     bind_err (get_azure_embedding_deployment env) (\<lambda>(az, dep, endpoint).
                     bind_err (subscript_opt ragConfig ''chunkSize'') (\<lambda>cs.
                     bind_err (subscript_opt ragConfig ''overlapSize'') (\<lambda>ov.
                     bind_err (subscript_opt ragConfig ''splitByChar'') (\<lambda>sp.
                     bind_err (subscript_opt ragConfig ''resultNum'') (\<lambda>rn.
                     bind_err (subscript_opt ragConfig ''connectionArgs'') (\<lambda>ca.
                       let agent = \<lparr>used = True, use_prompt = useRAG, chunk_size = cs,
                                    chunk_overlap = ov, split_by_characters = sp, n_results = rn,
                                    api_key = authKey, is_azure = az, azure_deployment = dep,
                                    azure_endpoint = endpoint, connection_args = ca\<rparr>
                       in raise_if (DocumentEmbedder_init env agent) agent))))))
                   of
                     Inl e \<Rightarrow> Inl (Inl e, self\<lparr>chatter := Some ch1\<rparr>)
                   | Inr agent \<Rightarrow>
                      (case (if useRAG then connect env agent else Inr agent) of
                         Inl e \<Rightarrow> Inl (Inl e, self\<lparr>chatter := Some (ch1\<lparr>rag_agent := Some agent\<rparr>)\<rparr>)
                       | Inr agent' \<Rightarrow>
                           Inr (self\<lparr>chatter := Some (ch1\<lparr>rag_agent := Some agent'\<rparr>)\<rparr>)))))"

text \<open>
  \<^verbatim>\<open>SessionData.chat\<close>, lines 98 to 107: the last message is the query, the others are
  replayed, the engine is queried; an error of the engine is logged and raised again.
\<close>

definition chat_query ::
  "environment \<Rightarrow> SessionData \<Rightarrow> message list \<Rightarrow>
   (error + chat_return) \<times> SessionData \<times> event list" where
  "chat_query env self msgs =
     (if msgs = [] then (Inl IndexError, self, [])
      else
        let text = content (last msgs);
            self1 = setup_messages self (butlast msgs)
        in
        (case chatter self1 of
           None \<Rightarrow> (Inl AttributeError, self1, [LogError AttributeError])
         | Some ch \<Rightarrow>
            (case query env ch text of
               Inl e \<Rightarrow> (Inl e, self1, [EngineQuery (messages ch) text, LogError e])
             | Inr ((msg, usage, correction), ch') \<Rightarrow>
                 (Inr (RetReply msg usage), self1\<lparr>chatter := Some ch'\<rparr>,
                  [EngineQuery (messages ch) text]))))"

text \<open>
  \<^verbatim>\<open>SessionData.chat\<close>: what it returns or raises, the object afterwards, and the events
  it caused.
\<close>

definition SessionData_chat ::
  "environment \<Rightarrow> SessionData \<Rightarrow> message list \<Rightarrow> string option \<Rightarrow>
   (string \<times> pyval) list option \<Rightarrow> bool \<Rightarrow>
   (error + chat_return) \<times> SessionData \<times> event list" where
  "SessionData_chat env self msgs authKey ragConfig useRAG =
     (case chat_configure env self msgs authKey ragConfig useRAG of
        Inl (out, self') \<Rightarrow> (out, self', [])
      | Inr self1 \<Rightarrow> chat_query env self1 msgs)"

subsection \<open>The module state and the lock\<close>

text \<open>
  \<^verbatim>\<open>conversationsDict\<close> keeps its insertion order, as a Python dictionary does;
  \<^verbatim>\<open>get_conversation\<close> is declared to return \<^verbatim>\<open>Optional[SessionData]\<close>, so a stored value
  may be \<^verbatim>\<open>None\<close>. \<open>rlock\<close> is the recursion level at which the running thread holds the
  re-entrant lock.
\<close>

record world =
  conversationsDict :: "(string \<times> SessionData option) list"
  rlock :: nat
  trace :: "event list"

definition world_init :: world where
  "world_init = \<lparr>conversationsDict = [], rlock = 0, trace = []\<rparr>"

definition emit :: "event list \<Rightarrow> world \<Rightarrow> world" where
  "emit es w = w\<lparr>trace := trace w @ es\<rparr>"

definition acquire :: "world \<Rightarrow> world" where
  "acquire w = emit [Acquire] (w\<lparr>rlock := rlock w + 1\<rparr>)"

text \<open>Every \<^verbatim>\<open>release\<close> of the module follows an \<^verbatim>\<open>acquire\<close> of the same function.\<close>

definition release :: "world \<Rightarrow> world" where
  "release w = emit [Release] (w\<lparr>rlock := rlock w - 1\<rparr>)"

definition logger_info :: "world \<Rightarrow> world" where
  "logger_info w = emit [LogInfo] w"

definition logger_error :: "error \<Rightarrow> world \<Rightarrow> world" where
  "logger_error e w = emit [LogError e] w"

definition store :: "string \<Rightarrow> SessionData \<Rightarrow> world \<Rightarrow> world" where
  "store sid sd w =
     w\<lparr>conversationsDict := AList.update sid (Some sd) (conversationsDict w)\<rparr>"

subsection \<open>The module-level functions\<close>

text \<open>
  The body of \<^verbatim>\<open>initialize_conversation\<close> up to the assignment to the dictionary: the
  branch taken, the arguments of the constructor evaluated from left to right, the
  engine constructed (and given its key in the first branch). The events are the calls
  of the logger; the condition of the second branch is evaluated, and may raise, before
  anything is logged.
\<close>

definition construct_chatter ::
  "environment \<Rightarrow> (string \<times> pyval) list \<Rightarrow> (error + chatter) \<times> event list" where
  "construct_chatter env cfg =
     (if environ env (OPENAI_API_TYPE env) = Some ''azure'' then
        (bind_err (getenv env (OPENAI_DEPLOYMENT_NAME env)) (\<lambda>dep.
         bind_err (getenv env (OPENAI_MODEL env)) (\<lambda>m.
         bind_err (get_rag_agent_prompts env) (\<lambda>p.
         bind_err (getenv env (OPENAI_API_VERSION env)) (\<lambda>v.
         bind_err (getenv env (AZURE_OPENAI_ENDPOINT env)) (\<lambda>url.
         bind_err (raise_if (AzureGptConversation_init env dep m p v url)
                     (new_chatter AzureGptConversation m)) (\<lambda>ch.
         bind_err (getenv env (OPENAI_API_KEY env)) (\<lambda>k.
           set_api_key env ch (Some k) None))))))),
         [LogInfo])
      else
        (case subscript cfg ''model'' of
           Inl e \<Rightarrow> (Inl e, [])
         | Inr m \<Rightarrow>
             if m = PStr ''mistral-wasm'' then
               (raise_if (WasmConversation_init env ''mistral-wasm'')
                  (new_chatter WasmConversation ''mistral-wasm''),
                [LogInfo])
             else
               (bind_err (get_rag_agent_prompts env) (\<lambda>p.
                  raise_if (GptConversation_init env ''gpt-3.5-turbo'' p)
                    (new_chatter GptConversation ''gpt-3.5-turbo'')),
                [LogInfo])))"

text \<open>
  \<^verbatim>\<open>initialize_conversation\<close>: the new record is stored only after the engine has been
  constructed; \<^verbatim>\<open>except\<close> logs the error and raises it again, \<^verbatim>\<open>finally\<close> releases
  the lock.
\<close>

definition initialize_conversation ::
  "environment \<Rightarrow> string \<Rightarrow> (string \<times> pyval) list \<Rightarrow> world \<Rightarrow> (error + unit) \<times> world" where
  "initialize_conversation env sid cfg w =
     (let w1 = acquire w;
          (r, evs) = construct_chatter env cfg;
          w2 = emit evs w1
      in
      (case r of
         Inl e \<Rightarrow> (Inl e, release (logger_error e w2))
       | Inr ch \<Rightarrow> (Inr (), release (store sid (SessionData_init env sid cfg (Some ch)) w2))))"

definition has_conversation :: "string \<Rightarrow> world \<Rightarrow> bool \<times> world" where
  "has_conversation sid w =
     (let w1 = acquire w
      in (map_of (conversationsDict w1) sid \<noteq> None, release w1))"

definition get_conversation ::
  "environment \<Rightarrow> string \<Rightarrow> world \<Rightarrow> (error + SessionData option) \<times> world" where
  "get_conversation env sid w =
     (let w1 = acquire w;
          (r, w2) =
            (if map_of (conversationsDict w1) sid = None
             then initialize_conversation env sid defaultModelConfig w1
             else (Inr (), w1))
      in
      (case r of
         Inl e \<Rightarrow> (Inl e, release (logger_error e w2))
       | Inr u \<Rightarrow>
          (case map_of (conversationsDict w2) sid of
             None \<Rightarrow> (Inl (KeyError sid), release (logger_error (KeyError sid) w2))
           | Some v \<Rightarrow> (Inr v, release w2))))"

text \<open>
  A call of \<^verbatim>\<open>get_conversation\<close> with keyword arguments, as the unit test
  \<^verbatim>\<open>test_get_conversation\<close> makes it: \<^verbatim>\<open>def get_conversation(sessionId: str)\<close> has the one
  parameter \<^verbatim>\<open>sessionId\<close>, so a call that also passes \<^verbatim>\<open>modelConfig\<close> raises \<^verbatim>\<open>TypeError\<close>
  before the body is entered.
\<close>

definition get_conversation_kw ::
  "environment \<Rightarrow> string \<Rightarrow> (string \<times> pyval) list option \<Rightarrow> world \<Rightarrow>
   (error + SessionData option) \<times> world" where
  "get_conversation_kw env sid modelConfig_kw w =
     (case modelConfig_kw of
        None \<Rightarrow> get_conversation env sid w
      | Some cfg \<Rightarrow> (Inl TypeError, w))"

definition remove_conversation :: "string \<Rightarrow> world \<Rightarrow> world" where
  "remove_conversation sid w =
     (let w1 = acquire w
      in if map_of (conversationsDict w1) sid = None then release w1
         else release (w1\<lparr>conversationsDict := AList.delete sid (conversationsDict w1)\<rparr>))"

text \<open>
  \<^verbatim>\<open>chat\<close>: the object returned by \<^verbatim>\<open>get_conversation\<close> is the one stored under
  \<^verbatim>\<open>sessionId\<close>, so what \<^verbatim>\<open>SessionData.chat\<close> changes in it is changed in the dictionary.
\<close>

definition chat ::
  "environment \<Rightarrow> string \<Rightarrow> message list \<Rightarrow> string option \<Rightarrow>
   (string \<times> pyval) list option \<Rightarrow> bool \<Rightarrow> world \<Rightarrow> (error + chat_return) \<times> world" where
  "chat env sid msgs authKey ragConfig useRAG w =
     (let w1 = acquire w;
          (r, w2) = get_conversation env sid w1
      in
      (case r of
         Inl e \<Rightarrow> (Inl e, release (logger_error e w2))
       | Inr conversation \<Rightarrow>
          (let w3 = logger_info w2
           in
           (case conversation of
              None \<Rightarrow> (Inl AttributeError, release (logger_error AttributeError w3))
            | Some self \<Rightarrow>
               (let (out, self', evs) = SessionData_chat env self msgs authKey ragConfig useRAG;
                    w4 = emit evs (store sid self' w3)
                in
                (case out of
                   Inl e \<Rightarrow> (Inl e, release (logger_error e w4))
                 | Inr v \<Rightarrow> (Inr v, release w4)))))))"

text \<open>
  The first loop of \<^verbatim>\<open>recycle_conversations\<close> over the keys of the dictionary, with the
  list \<^verbatim>\<open>sessionsToRemove\<close> built so far; the second loop over that list. The first loop
  looks up keys that are in the dictionary, so the dictionary does not change while it
  is iterated (lemma \<open>recycle_scan_keeps\<close>) and the keys are those on entry. The clock
  reading \<open>now\<close> is a float and the sum of the two integers is compared with it exactly.
\<close>

fun recycle_scan ::
  "environment \<Rightarrow> real \<Rightarrow> string list \<Rightarrow> string list \<Rightarrow> world \<Rightarrow> (error + string list) \<times> world" where
  "recycle_scan env now [] sessionsToRemove w = (Inr sessionsToRemove, w)"
| "recycle_scan env now (sid # rest) sessionsToRemove w =
     (case get_conversation env sid w of
        (Inl e, w1) \<Rightarrow> (Inl e, w1)
      | (Inr None, w1) \<Rightarrow> (Inl AssertionError, w1)
      | (Inr (Some conversation), w1) \<Rightarrow>
          recycle_scan env now rest
            (if real_of_int (refreshedAt conversation + maxAge conversation) < now
             then sessionsToRemove @ [sessionId conversation]
             else sessionsToRemove)
            (logger_info w1))"

fun recycle_remove :: "string list \<Rightarrow> world \<Rightarrow> world" where
  "recycle_remove [] w = w"
| "recycle_remove (sid # rest) w = recycle_remove rest (remove_conversation sid w)"

definition recycle_conversations :: "environment \<Rightarrow> world \<Rightarrow> (error + unit) \<times> world" where
  "recycle_conversations env w =
     (let w1 = acquire (logger_info w);
          now = now_ms env
      in
      (case recycle_scan env now (map fst (conversationsDict w1)) [] w1 of
         (Inl e, w2) \<Rightarrow> (Inl e, release (logger_error e w2))
       | (Inr sessionsToRemove, w2) \<Rightarrow> (Inr (), release (recycle_remove sessionsToRemove w2))))"

subsection \<open>Notions of the specification\<close>

text \<open>
  A record is expired at time \<open>now\<close> iff \<open>now > refreshedAt + maxAge\<close> (section 3 of the
  specification).
\<close>

definition expired :: "real \<Rightarrow> SessionData \<Rightarrow> bool" where
  "expired now r = (now > real_of_int (refreshedAt r) + real_of_int (maxAge r))"

text \<open>
  What a recycling tick at time \<open>now\<close> is specified to leave of a stored value: nothing of
  an expired record, and any other value as it is.
\<close>

definition after_tick :: "real \<Rightarrow> SessionData option option \<Rightarrow> SessionData option option" where
  "after_tick now v =
     (case v of
        Some (Some r) \<Rightarrow> if expired now r then None else Some (Some r)
      | other \<Rightarrow> other)"

text \<open>
  The history that the specification expects the engine to hold when it is queried: the
  messages with role \<^verbatim>\<open>system\<close>, \<^verbatim>\<open>assistant\<close> or \<^verbatim>\<open>user\<close>, in order, each as the entry of
  its append operation; messages with any other role are dropped.
\<close>

definition replayed :: "message \<Rightarrow> engine_message option" where
  "replayed msg =
     (if role msg = ''system'' then Some (SystemMessage (content msg))
      else if role msg = ''assistant'' then Some (AIMessage (content msg))
      else if role msg = ''user'' then Some (HumanMessage (content msg))
      else None)"

definition replay :: "message list \<Rightarrow> engine_message list" where
  "replay msgs = List.map_filter replayed msgs"

text \<open>The fields of a record other than its engine.\<close>

definition same_frame :: "SessionData \<Rightarrow> SessionData \<Rightarrow> bool" where
  "same_frame r r' =
     (sessionId r' = sessionId r \<and> modelConfig r' = modelConfig r \<and>
      createdAt r' = createdAt r \<and> refreshedAt r' = refreshedAt r \<and> maxAge r' = maxAge r)"

text \<open>
  A dictionary as the module's own functions build it: every value is a record, stored
  under its own \<^verbatim>\<open>sessionId\<close>, whose \<^verbatim>\<open>refreshedAt\<close> is its \<^verbatim>\<open>createdAt\<close>.
\<close>

definition record_ok :: "string \<times> SessionData option \<Rightarrow> bool" where
  "record_ok kv =
     (case snd kv of
        None \<Rightarrow> False
      | Some r \<Rightarrow> sessionId r = fst kv \<and> refreshedAt r = createdAt r)"

definition store_ok :: "world \<Rightarrow> bool" where
  "store_ok w = list_all record_ok (conversationsDict w)"

text \<open>
  Reading a trace: the level of the lock after a sequence of events, starting at level
  \<open>d\<close>, and the levels at which the queries to the engine in it were issued.
\<close>

fun depth_after :: "nat \<Rightarrow> event list \<Rightarrow> nat" where
  "depth_after d [] = d"
| "depth_after d (Acquire # es) = depth_after (Suc d) es"
| "depth_after d (Release # es) = depth_after (d - 1) es"
| "depth_after d (e # es) = depth_after d es"

fun query_depths :: "nat \<Rightarrow> event list \<Rightarrow> nat list" where
  "query_depths d [] = []"
| "query_depths d (Acquire # es) = query_depths (Suc d) es"
| "query_depths d (Release # es) = query_depths (d - 1) es"
| "query_depths d (EngineQuery h t # es) = d # query_depths d es"
| "query_depths d (e # es) = query_depths d es"

text \<open>The level of the lock after each event of a trace, starting at level \<open>d\<close>.\<close>

fun levels :: "nat \<Rightarrow> event list \<Rightarrow> nat list" where
  "levels d [] = []"
| "levels d (Acquire # es) = Suc d # levels (Suc d) es"
| "levels d (Release # es) = (d - 1) # levels (d - 1) es"
| "levels d (e # es) = d # levels d es"

text \<open>
  Events that leave the lock at its level, never take it below that level and contain
  no query.
\<close>

definition quiet :: "event list \<Rightarrow> bool" where
  "quiet es =
     (\<forall>d. depth_after d es = d \<and> query_depths d es = [] \<and> list_all (\<lambda>l. d \<le> l) (levels d es))"

subsection \<open>Histories of the module\<close>

text \<open>
  The worlds the module can be in: it starts with an empty dictionary, and each call of
  one of its functions leads from one world to the next. The predicate \<open>P\<close> restricts
  the session ids on which the three functions that can create a record
  (\<^verbatim>\<open>initialize_conversation\<close>, \<^verbatim>\<open>get_conversation\<close>, \<^verbatim>\<open>chat\<close>) are called.
\<close>

inductive reachable_via :: "(string \<Rightarrow> bool) \<Rightarrow> world \<Rightarrow> bool" for P :: "string \<Rightarrow> bool" where
  start: "reachable_via P world_init"
| after_initialize:
    "reachable_via P w \<Longrightarrow> P sid \<Longrightarrow>
     reachable_via P (snd (initialize_conversation env sid cfg w))"
| after_get:
    "reachable_via P w \<Longrightarrow> P sid \<Longrightarrow> reachable_via P (snd (get_conversation env sid w))"
| after_chat:
    "reachable_via P w \<Longrightarrow> P sid \<Longrightarrow>
     reachable_via P (snd (chat env sid msgs authKey ragConfig useRAG w))"
| after_has: "reachable_via P w \<Longrightarrow> reachable_via P (snd (has_conversation sid w))"
| after_remove: "reachable_via P w \<Longrightarrow> reachable_via P (remove_conversation sid w)"
| after_recycle: "reachable_via P w \<Longrightarrow> reachable_via P (snd (recycle_conversations env w))"

definition reachable :: "world \<Rightarrow> bool" where
  "reachable w = reachable_via (\<lambda>sid. True) w"

text \<open>\<^verbatim>\<open>sessionId in conversationsDict\<close>, read off a world.\<close>

definition stored :: "world \<Rightarrow> string \<Rightarrow> SessionData option option" where
  "stored w sid = map_of (conversationsDict w) sid"

subsection \<open>Example inputs\<close>

definition env0 :: environment where
  "env0 =
     \<lparr>OPENAI_API_TYPE = ''OPENAI_API_TYPE'',
      OPENAI_DEPLOYMENT_NAME = ''OPENAI_DEPLOYMENT_NAME'',
      OPENAI_MODEL = ''OPENAI_MODEL'',
      OPENAI_API_VERSION = ''OPENAI_API_VERSION'',
      AZURE_OPENAI_ENDPOINT = ''AZURE_OPENAI_ENDPOINT'',
      OPENAI_API_KEY = ''OPENAI_API_KEY'',
      environ = (\<lambda>name. None),
      now_ms = 2001 / 2,
      openai_api_key = None,
      get_rag_agent_prompts = Inr (PList []),
      get_azure_embedding_deployment = Inr (PBool False, PNone, PNone),
      AzureGptConversation_init = (\<lambda>dep m p v url. None),
      GptConversation_init = (\<lambda>m p. None),
      WasmConversation_init = (\<lambda>m. None),
      set_api_key = (\<lambda>ch k u. Inr (ch\<lparr>has_chat := True\<rparr>)),
      DocumentEmbedder_init = (\<lambda>agent. None),
      connect = (\<lambda>agent. Inr agent),
      query = (\<lambda>ch text. Inr ((''re: '' @ text, PDict [(''total_tokens'', PInt 1)], PNone),
                               ch\<lparr>messages := messages ch @ [HumanMessage text]\<rparr>))\<rparr>"

text \<open>An environment in which the constructor of the engine rejects its arguments.\<close>

definition env_bad :: environment where
  "env_bad = env0\<lparr>GptConversation_init := (\<lambda>m p. Some (External ''invalid api key''))\<rparr>"

text \<open>The configuration that the unit test of the repository passes.\<close>

definition testModelConfig :: "(string \<times> pyval) list" where
  "testModelConfig =
     [(''model'', PStr ''gpt-3.5-turbo''),
      (''temperature'', PFloat (7 / 10)),
      (''max_tokens'', PInt 2000),
      (''presence_penalty'', PInt 0),
      (''frequency_penalty'', PInt 0),
      (''sendMemory'', PBool True),
      (''historyMessageCount'', PInt 4),
      (''compressMessageLengthThreshold'', PInt 2000),
      (''chatter_type'', PStr ''ServerOpenAI'')]"

text \<open>
  The configuration that \<^verbatim>\<open>test_get_conversation\<close> passes:
  \<^verbatim>\<open>{**defaultModelConfig, "chatter_type": "ServerOpenAI"}\<close>.
\<close>

definition test_get_modelConfig :: "(string \<times> pyval) list" where
  "test_get_modelConfig = defaultModelConfig @ [(''chatter_type'', PStr ''ServerOpenAI'')]"

text \<open>A session created at time 1000 that has already answered one query.\<close>

definition session_abc :: SessionData where
  "session_abc =
     \<lparr>modelConfig = testModelConfig,
      chatter = Some \<lparr>cls = GptConversation, model_name = ''gpt-3.5-turbo'', has_chat = True,
                      messages = [HumanMessage ''hello''], rag_agent = None\<rparr>,
      sessionId = ''abc'', createdAt = 1000, refreshedAt = 1000, maxAge = MAX_AGE\<rparr>"

definition world_abc :: world where
  "world_abc = \<lparr>conversationsDict = [(''abc'', Some session_abc)], rlock = 0, trace = []\<rparr>"

definition env_later :: environment where
  "env_later = env0\<lparr>now_ms := 5000\<rparr>"

definition rag0 :: "(string \<times> pyval) list option" where
  "rag0 = Some [(''splitByChar'', PBool True), (''chunkSize'', PInt 1000),
                (''overlapSize'', PInt 0), (''resultNum'', PInt 3),
                (''connectionArgs'', PDict [(''host'', PStr ''127.0.0.1''), (''port'', PStr ''19530'')])]"

definition hello :: "message list" where
  "hello = [\<lparr>role = ''user'', content = ''hello''\<rparr>]"

definition dialogue :: "message list" where
  "dialogue =
     [\<lparr>role = ''system'', content = ''be brief''\<rparr>,
      \<lparr>role = ''user'', content = ''hello''\<rparr>,
      \<lparr>role = ''tool'', content = ''ignored''\<rparr>,
      \<lparr>role = ''assistant'', content = ''hi''\<rparr>,
      \<lparr>role = ''user'', content = ''how are you''\<rparr>]"

definition session_fresh :: SessionData where
  "session_fresh =
     \<lparr>modelConfig = testModelConfig,
      chatter = Some (new_chatter GptConversation ''gpt-3.5-turbo''),
      sessionId = ''abc'', createdAt = 1000, refreshedAt = 1000, maxAge = MAX_AGE\<rparr>"

definition world_fresh :: world where
  "world_fresh = \<lparr>conversationsDict = [(''abc'', Some session_fresh)], rlock = 0, trace = []\<rparr>"

definition world_none :: world where
  "world_none = \<lparr>conversationsDict = [(''x'', None)], rlock = 0, trace = []\<rparr>"

definition env_before_deadline :: environment where
  "env_before_deadline = env0\<lparr>now_ms := 1000 + real_of_int MAX_AGE - 1 / 2\<rparr>"

definition env_after_deadline :: environment where
  "env_after_deadline = env0\<lparr>now_ms := 1000 + real_of_int MAX_AGE + 1 / 2\<rparr>"

text \<open>The record \<open>session_fresh\<close> once \<^verbatim>\<open>chat\<close> has configured it with the key \<^verbatim>\<open>k\<close>.\<close>

definition session_configured :: SessionData where
  "session_configured =
     session_fresh\<lparr>chatter := Some
       \<lparr>cls = GptConversation, model_name = ''gpt-3.5-turbo'', has_chat = True, messages = [],
        rag_agent = Some
          \<lparr>used = True, use_prompt = False, chunk_size = PInt 1000, chunk_overlap = PInt 0,
           split_by_characters = PBool True, n_results = PInt 3, api_key = Some ''k'',
           is_azure = PBool False, azure_deployment = PNone, azure_endpoint = PNone,
           connection_args = PDict [(''host'', PStr ''127.0.0.1''), (''port'', PStr ''19530'')]\<rparr>\<rparr>\<rparr>"

text \<open>The record \<open>session_abc\<close> once \<^verbatim>\<open>chat\<close> has configured it with the key \<^verbatim>\<open>k\<close>.\<close>

definition session_abc_configured :: SessionData where
  "session_abc_configured =
     session_abc\<lparr>chatter := Some
       \<lparr>cls = GptConversation, model_name = ''gpt-3.5-turbo'', has_chat = True,
        messages = [HumanMessage ''hello''],
        rag_agent = Some
          \<lparr>used = True, use_prompt = False, chunk_size = PInt 1000, chunk_overlap = PInt 0,
           split_by_characters = PBool True, n_results = PInt 3, api_key = Some ''k'',
           is_azure = PBool False, azure_deployment = PNone, azure_endpoint = PNone,
           connection_args = PDict [(''host'', PStr ''127.0.0.1''), (''port'', PStr ''19530'')]\<rparr>\<rparr>\<rparr>"

section \<open>Basic facts\<close>

lemma emit_simps [simp]:
  "conversationsDict (emit es w) = conversationsDict w"
  "rlock (emit es w) = rlock w"
  "trace (emit es w) = trace w @ es"
  by (simp_all add: emit_def)

lemma acquire_simps [simp]:
  "conversationsDict (acquire w) = conversationsDict w"
  "rlock (acquire w) = Suc (rlock w)"
  "trace (acquire w) = trace w @ [Acquire]"
  by (simp_all add: acquire_def)

lemma release_simps [simp]:
  "conversationsDict (release w) = conversationsDict w"
  "rlock (release w) = rlock w - 1"
  "trace (release w) = trace w @ [Release]"
  by (simp_all add: release_def)

lemma logger_simps [simp]:
  "conversationsDict (logger_info w) = conversationsDict w"
  "rlock (logger_info w) = rlock w"
  "trace (logger_info w) = trace w @ [LogInfo]"
  "conversationsDict (logger_error e w) = conversationsDict w"
  "rlock (logger_error e w) = rlock w"
  "trace (logger_error e w) = trace w @ [LogError e]"
  by (simp_all add: logger_info_def logger_error_def)

lemma store_simps [simp]:
  "conversationsDict (store sid sd w) = AList.update sid (Some sd) (conversationsDict w)"
  "rlock (store sid sd w) = rlock w"
  "trace (store sid sd w) = trace w"
  by (simp_all add: store_def)

subsection \<open>\<^verbatim>\<open>initialize_conversation\<close>\<close>

lemma construct_chatter_events:
  "snd (construct_chatter env cfg) = [] \<or> snd (construct_chatter env cfg) = [LogInfo]"
  by (simp add: construct_chatter_def split: sum.splits)

lemma initialize_raises:
  assumes "fst (construct_chatter env cfg) = Inl e"
  shows "fst (initialize_conversation env sid cfg w) = Inl e"
    and "conversationsDict (snd (initialize_conversation env sid cfg w)) = conversationsDict w"
    and "rlock (snd (initialize_conversation env sid cfg w)) = rlock w"
    and "trace (snd (initialize_conversation env sid cfg w)) =
           trace w @ Acquire # snd (construct_chatter env cfg) @ [LogError e, Release]"
  using assms
  by (cases "construct_chatter env cfg", simp_all add: initialize_conversation_def Let_def)+

lemma initialize_returns:
  assumes "fst (construct_chatter env cfg) = Inr ch"
  shows "fst (initialize_conversation env sid cfg w) = Inr ()"
    and "conversationsDict (snd (initialize_conversation env sid cfg w)) =
           AList.update sid (Some (SessionData_init env sid cfg (Some ch))) (conversationsDict w)"
    and "rlock (snd (initialize_conversation env sid cfg w)) = rlock w"
    and "trace (snd (initialize_conversation env sid cfg w)) =
           trace w @ Acquire # snd (construct_chatter env cfg) @ [Release]"
  using assms
  by (cases "construct_chatter env cfg", simp_all add: initialize_conversation_def Let_def)+

lemma construct_env0:
  "construct_chatter env0 testModelConfig =
     (Inr (new_chatter GptConversation ''gpt-3.5-turbo''), [LogInfo])"
  by (simp add: construct_chatter_def env0_def testModelConfig_def subscript_def raise_if_def)

lemma construct_env_bad:
  "construct_chatter env_bad testModelConfig = (Inl (External ''invalid api key''), [LogInfo])"
  by (simp add: construct_chatter_def env_bad_def env0_def testModelConfig_def subscript_def
      raise_if_def)

subsection \<open>Lookup, creation and removal\<close>

lemma stored_release_acquire [simp]:
  "stored (release w) k = stored w k" "stored (acquire w) k = stored w k"
  "stored (logger_info w) k = stored w k" "stored (logger_error e w) k = stored w k"
  "stored (emit es w) k = stored w k"
  by (simp_all add: stored_def)

lemma stored_store [simp]: "stored (store sid sd w) k = (if k = sid then Some (Some sd) else stored w k)"
  by (simp add: stored_def update_conv')

lemma initialize_stored_other:
  "k \<noteq> sid \<Longrightarrow> stored (snd (initialize_conversation env sid cfg w)) k = stored w k"
  by (cases "construct_chatter env cfg")
     (simp add: initialize_conversation_def Let_def split: sum.splits)

lemma get_conversation_present:
  assumes "stored w sid = Some v"
  shows "get_conversation env sid w = (Inr v, release (acquire w))"
  using assms by (simp add: get_conversation_def stored_def Let_def)

lemma get_conversation_absent_raises:
  assumes "stored w sid = None" "fst (construct_chatter env defaultModelConfig) = Inl e"
  shows "fst (get_conversation env sid w) = Inl e"
    and "conversationsDict (snd (get_conversation env sid w)) = conversationsDict w"
    and "rlock (snd (get_conversation env sid w)) = rlock w"
  using assms initialize_raises [OF assms(2), of sid "acquire w"]
  by (cases "initialize_conversation env sid defaultModelConfig (acquire w)",
      simp_all add: get_conversation_def stored_def Let_def)+

lemma get_conversation_absent_returns:
  assumes "stored w sid = None" "fst (construct_chatter env defaultModelConfig) = Inr ch"
  shows "fst (get_conversation env sid w) =
           Inr (Some (SessionData_init env sid defaultModelConfig (Some ch)))"
    and "conversationsDict (snd (get_conversation env sid w)) =
           AList.update sid (Some (SessionData_init env sid defaultModelConfig (Some ch)))
             (conversationsDict w)"
    and "rlock (snd (get_conversation env sid w)) = rlock w"
  using assms initialize_returns [OF assms(2), of sid "acquire w"]
  by (cases "initialize_conversation env sid defaultModelConfig (acquire w)",
      simp_all add: get_conversation_def stored_def Let_def update_conv')+

lemma get_conversation_stored_other:
  assumes "k \<noteq> sid"
  shows "stored (snd (get_conversation env sid w)) k = stored w k"
proof (cases "stored w sid")
  case None
  show ?thesis
  proof (cases "fst (construct_chatter env defaultModelConfig)")
    case (Inl e)
    from get_conversation_absent_raises(2) [OF None Inl] show ?thesis by (simp add: stored_def)
  next
    case (Inr ch)
    from get_conversation_absent_returns(2) [OF None Inr] assms show ?thesis
      by (simp add: stored_def update_conv')
  qed
next
  case (Some v)
  then show ?thesis by (simp add: get_conversation_present)
qed

lemma get_conversation_rlock: "rlock (snd (get_conversation env sid w)) = rlock w"
proof (cases "stored w sid")
  case None
  show ?thesis
  proof (cases "fst (construct_chatter env defaultModelConfig)")
    case (Inl e)
    from get_conversation_absent_raises(3) [OF None Inl] show ?thesis .
  next
    case (Inr ch)
    from get_conversation_absent_returns(3) [OF None Inr] show ?thesis .
  qed
next
  case (Some v)
  then show ?thesis by (simp add: get_conversation_present)
qed

lemma get_conversation_returns_stored:
  assumes "get_conversation env sid w = (Inr v, w')"
  shows "stored w' sid = Some v"
proof (cases "stored w sid")
  case None
  show ?thesis
  proof (cases "fst (construct_chatter env defaultModelConfig)")
    case (Inl e)
    from get_conversation_absent_raises(1) [OF None Inl] assms show ?thesis by simp
  next
    case (Inr ch)
    from get_conversation_absent_returns(1,2) [OF None Inr] assms show ?thesis
      by (auto simp: stored_def update_conv')
  qed
next
  case (Some u)
  with assms show ?thesis by (auto simp: get_conversation_present)
qed

lemma has_conversation_eq:
  "has_conversation sid w = (stored w sid \<noteq> None, release (acquire w))"
  by (simp add: has_conversation_def stored_def Let_def)

lemma remove_conversation_stored:
  "stored (remove_conversation sid w) k = (if k = sid then None else stored w k)"
  by (simp add: remove_conversation_def stored_def Let_def delete_conv')

lemma remove_conversation_rlock [simp]: "rlock (remove_conversation sid w) = rlock w"
  by (simp add: remove_conversation_def Let_def)

lemma remove_conversation_dict:
  "conversationsDict (remove_conversation sid w) = AList.delete sid (conversationsDict w)"
  by (simp add: remove_conversation_def Let_def map_of_eq_None_iff)

subsection \<open>\<^verbatim>\<open>SessionData.chat\<close>\<close>

lemma setup_messages_loop_eq:
  "setup_messages_loop ch msgs = ch\<lparr>messages := messages ch @ replay msgs\<rparr>"
proof (induction msgs arbitrary: ch)
  case Nil
  show ?case by (simp add: replay_def List.map_filter_simps)
next
  case (Cons m ms)
  show ?case
    by (simp add: Cons.IH replay_def replayed_def List.map_filter_simps
        append_system_message_def append_ai_message_def append_user_message_def)
qed

lemma setup_messages_eq:
  "chatter self = Some ch \<Longrightarrow>
   setup_messages self msgs = self\<lparr>chatter := Some (ch\<lparr>messages := replay msgs\<rparr>)\<rparr>"
  by (simp add: setup_messages_def setup_messages_loop_eq)

lemma same_frame_refl [simp]: "same_frame r r"
  by (simp add: same_frame_def)

lemma same_frame_chatter [simp]: "same_frame r (r\<lparr>chatter := c\<rparr>)"
  by (simp add: same_frame_def)

lemma same_frame_trans: "same_frame a b \<Longrightarrow> same_frame b c \<Longrightarrow> same_frame a c"
  by (simp add: same_frame_def)

lemma chat_configure_frame:
  "chat_configure env self msgs authKey ragConfig useRAG = Inl (out, self') \<Longrightarrow> same_frame self self'"
  "chat_configure env self msgs authKey ragConfig useRAG = Inr self1 \<Longrightarrow>
     same_frame self self1 \<and> chatter self1 \<noteq> None \<and> msgs \<noteq> []"
  by (auto simp: chat_configure_def Let_def split: option.splits if_splits sum.splits)

lemma chat_empty_messages:
  "SessionData_chat env self [] authKey ragConfig useRAG = (Inr RetNone, self, [])"
  by (simp add: SessionData_chat_def chat_configure_def split: option.splits)

lemma chat_query_frame:
  "chat_query env self msgs = (out, self', evs) \<Longrightarrow> same_frame self self'"
  by (auto simp: chat_query_def Let_def setup_messages_def split: option.splits if_splits sum.splits prod.splits)

lemma chat_query_events:
  "chat_query env self msgs = (out, self', evs) \<Longrightarrow>
     depth_after d evs = d \<and> (query_depths d evs = [] \<or> query_depths d evs = [d])
     \<and> list_all (\<lambda>l. d \<le> l) (levels d evs)"
  by (auto simp: chat_query_def Let_def split: option.splits if_splits sum.splits prod.splits)

lemma SessionData_chat_frame:
  assumes "SessionData_chat env self msgs authKey ragConfig useRAG = (out, self', evs)"
  shows "same_frame self self'"
proof (cases "chat_configure env self msgs authKey ragConfig useRAG")
  case (Inl a)
  with assms chat_configure_frame(1) [of env self msgs authKey ragConfig useRAG "fst a" "snd a"]
  show ?thesis by (cases a) (auto simp: SessionData_chat_def)
next
  case (Inr self1)
  with assms have "chat_query env self1 msgs = (out, self', evs)"
    by (simp add: SessionData_chat_def)
  from chat_query_frame [OF this] chat_configure_frame(2) [OF Inr]
  show ?thesis by (blast intro: same_frame_trans)
qed

lemma SessionData_chat_events:
  assumes "SessionData_chat env self msgs authKey ragConfig useRAG = (out, self', evs)"
  shows "depth_after d evs = d \<and> (query_depths d evs = [] \<or> query_depths d evs = [d])
     \<and> list_all (\<lambda>l. d \<le> l) (levels d evs)"
proof (cases "chat_configure env self msgs authKey ragConfig useRAG")
  case (Inl a)
  with assms show ?thesis by (cases a) (auto simp: SessionData_chat_def)
next
  case (Inr self1)
  with assms have "chat_query env self1 msgs = (out, self', evs)"
    by (simp add: SessionData_chat_def)
  from chat_query_events [OF this] show ?thesis .
qed

lemma chat_query_reply:
  "chat_query env self msgs = (Inr (RetReply m u), self', evs) \<Longrightarrow> \<exists>h t. evs = [EngineQuery h t]"
  by (auto simp: chat_query_def Let_def split: option.splits if_splits sum.splits prod.splits)

lemma SessionData_chat_reply:
  assumes "SessionData_chat env self msgs authKey ragConfig useRAG = (Inr (RetReply m u), self', evs)"
  shows "\<exists>h t. evs = [EngineQuery h t]"
proof (cases "chat_configure env self msgs authKey ragConfig useRAG")
  case (Inl a)
  with assms have "a = (Inr (RetReply m u), self')"
    by (cases a) (simp add: SessionData_chat_def)
  with Inl show ?thesis
    by (auto simp: chat_configure_def Let_def split: option.splits if_splits sum.splits)
next
  case (Inr self1)
  with assms have "chat_query env self1 msgs = (Inr (RetReply m u), self', evs)"
    by (simp add: SessionData_chat_def)
  then show ?thesis by (rule chat_query_reply)
qed

subsection \<open>Traces\<close>

lemma depth_after_append: "depth_after d (xs @ ys) = depth_after (depth_after d xs) ys"
  by (induction d xs rule: depth_after.induct) simp_all

lemma query_depths_append:
  "query_depths d (xs @ ys) = query_depths d xs @ query_depths (depth_after d xs) ys"
  by (induction d xs rule: query_depths.induct) simp_all


lemma levels_append: "levels d (xs @ ys) = levels d xs @ levels (depth_after d xs) ys"
  by (induction d xs rule: levels.induct) simp_all

lemma list_all_above: "list_all (\<lambda>l. Suc d \<le> l) ls \<Longrightarrow> list_all (\<lambda>l. d \<le> l) ls"
  by (induction ls) simp_all

lemma quietD:
  "quiet es \<Longrightarrow> depth_after d es = d"
  "quiet es \<Longrightarrow> query_depths d es = []"
  "quiet es \<Longrightarrow> list_all (\<lambda>l. d \<le> l) (levels d es)"
  by (simp_all add: quiet_def)

lemma quiet_simps [simp]: "quiet []" "quiet [LogInfo]" "quiet [LogError e]"
  by (simp_all add: quiet_def)

lemma quiet_append:
  assumes "quiet xs" and "quiet ys"
  shows "quiet (xs @ ys)"
  unfolding quiet_def
proof (intro allI conjI)
  fix d
  show "depth_after d (xs @ ys) = d"
    by (simp add: depth_after_append quietD(1) [OF assms(1)] quietD(1) [OF assms(2)])
  show "query_depths d (xs @ ys) = []"
    by (simp add: query_depths_append quietD(1) [OF assms(1)] quietD(2) [OF assms(1)]
        quietD(2) [OF assms(2)])
  show "list_all (\<lambda>l. d \<le> l) (levels d (xs @ ys))"
    by (simp add: levels_append quietD(1) [OF assms(1)] quietD(3) [OF assms(1)]
        quietD(3) [OF assms(2)])
qed

lemma quiet_locked:
  assumes "quiet es"
  shows "quiet (Acquire # es @ [Release])"
  unfolding quiet_def
proof (intro allI conjI)
  fix d
  show "depth_after d (Acquire # es @ [Release]) = d"
    by (simp add: depth_after_append quietD(1) [OF assms])
  show "query_depths d (Acquire # es @ [Release]) = []"
    by (simp add: query_depths_append quietD(1) [OF assms] quietD(2) [OF assms])
  show "list_all (\<lambda>l. d \<le> l) (levels d (Acquire # es @ [Release]))"
    using list_all_above [OF quietD(3) [OF assms, of "Suc d"]]
    by (simp add: levels_append quietD(1) [OF assms])
qed

lemma quiet_construct_chatter: "quiet (snd (construct_chatter env cfg))"
  using construct_chatter_events [of env cfg] by (elim disjE) simp_all

lemma trace_extends:
  "trace w' = trace w @ new \<Longrightarrow> quiet new \<Longrightarrow> \<exists>new. trace w' = trace w @ new \<and> quiet new"
  by (rule exI [of _ new]) simp

lemma initialize_trace:
  "\<exists>new. trace (snd (initialize_conversation env sid cfg w)) = trace w @ new \<and> quiet new"
proof (cases "fst (construct_chatter env cfg)")
  case (Inl e)
  have "quiet (Acquire # (snd (construct_chatter env cfg) @ [LogError e]) @ [Release])"
    by (intro quiet_locked quiet_append quiet_construct_chatter) simp
  moreover have "trace (snd (initialize_conversation env sid cfg w)) =
      trace w @ Acquire # (snd (construct_chatter env cfg) @ [LogError e]) @ [Release]"
    using initialize_raises(4) [OF Inl, of sid w] by simp
  ultimately show ?thesis by (rule trace_extends [rotated])
next
  case (Inr ch)
  have "quiet (Acquire # snd (construct_chatter env cfg) @ [Release])"
    by (intro quiet_locked quiet_construct_chatter)
  moreover have "trace (snd (initialize_conversation env sid cfg w)) =
      trace w @ Acquire # snd (construct_chatter env cfg) @ [Release]"
    using initialize_returns(4) [OF Inr, of sid w] by simp
  ultimately show ?thesis by (rule trace_extends [rotated])
qed

lemma get_conversation_trace:
  "\<exists>new. trace (snd (get_conversation env sid w)) = trace w @ new \<and> quiet new"
proof (cases "map_of (conversationsDict w) sid = None")
  case True
  obtain r w2 where init: "initialize_conversation env sid defaultModelConfig (acquire w) = (r, w2)"
    by (cases "initialize_conversation env sid defaultModelConfig (acquire w)")
  from initialize_trace [of env sid defaultModelConfig "acquire w"]
  obtain new0 where "trace (snd (initialize_conversation env sid defaultModelConfig (acquire w)))
      = trace (acquire w) @ new0" and q: "quiet new0"
    by (elim exE conjE)
  with init have new: "trace w2 = trace w @ Acquire # new0" by simp
  have q1: "quiet (Acquire # new0 @ [Release])"
    using q by (intro quiet_locked)
  have q2: "quiet (Acquire # (new0 @ [LogError e]) @ [Release])" for e
    using q by (intro quiet_locked quiet_append) simp_all
  show ?thesis
  proof (cases r)
    case (Inl e)
    with True init new have "trace (snd (get_conversation env sid w)) =
        trace w @ Acquire # (new0 @ [LogError e]) @ [Release]"
      by (simp add: get_conversation_def Let_def)
    then show ?thesis using q2 by (rule trace_extends)
  next
    case (Inr u)
    show ?thesis
    proof (cases "map_of (conversationsDict w2) sid")
      case None
      with Inr True init new have "trace (snd (get_conversation env sid w)) =
          trace w @ Acquire # (new0 @ [LogError (KeyError sid)]) @ [Release]"
        by (simp add: get_conversation_def Let_def)
      then show ?thesis using q2 by (rule trace_extends)
    next
      case (Some v)
      with Inr True init new have "trace (snd (get_conversation env sid w)) =
          trace w @ Acquire # new0 @ [Release]"
        by (simp add: get_conversation_def Let_def)
      then show ?thesis using q1 by (rule trace_extends)
    qed
  qed
next
  case False
  then have "trace (snd (get_conversation env sid w)) = trace w @ Acquire # [] @ [Release]"
    by (auto simp add: get_conversation_def Let_def)
  moreover have "quiet (Acquire # [] @ [Release])" by (intro quiet_locked) simp
  ultimately show ?thesis by (rule trace_extends)
qed

subsection \<open>\<^verbatim>\<open>chat\<close>\<close>

lemma chat_rlock: "rlock (snd (chat env sid msgs authKey ragConfig useRAG w)) = rlock w"
proof -
  obtain r w2 where get: "get_conversation env sid (acquire w) = (r, w2)"
    by (cases "get_conversation env sid (acquire w)")
  with get_conversation_rlock [of env sid "acquire w"] have "rlock w2 = Suc (rlock w)" by simp
  with get show ?thesis
    by (simp add: chat_def Let_def split: sum.splits option.splits prod.splits)
qed

lemma chat_stored_other:
  assumes "k \<noteq> sid"
  shows "stored (snd (chat env sid msgs authKey ragConfig useRAG w)) k = stored w k"
proof -
  obtain r w2 where get: "get_conversation env sid (acquire w) = (r, w2)"
    by (cases "get_conversation env sid (acquire w)")
  with get_conversation_stored_other [OF assms, of env "acquire w"] have "stored w2 k = stored w k"
    by simp
  with get assms show ?thesis
    by (simp add: chat_def Let_def split: sum.splits option.splits prod.splits)
qed

lemma chat_present:
  assumes "stored w sid = Some (Some self)"
    and "SessionData_chat env self msgs authKey ragConfig useRAG = (out, self', evs)"
  shows "fst (chat env sid msgs authKey ragConfig useRAG w) = out"
    and "conversationsDict (snd (chat env sid msgs authKey ragConfig useRAG w)) =
           AList.update sid (Some self') (conversationsDict w)"
    and "rlock (snd (chat env sid msgs authKey ragConfig useRAG w)) = rlock w"
    and "trace (snd (chat env sid msgs authKey ragConfig useRAG w)) =
           trace w @ [Acquire, Acquire, Release, LogInfo] @ evs @
             (case out of Inl e \<Rightarrow> [LogError e] | Inr v \<Rightarrow> []) @ [Release]"
  using assms
  by (simp_all add: chat_def Let_def get_conversation_present split: sum.splits)

lemma chat_stored_same:
  assumes "stored w sid = Some (Some self)"
  shows "\<exists>self'. stored (snd (chat env sid msgs authKey ragConfig useRAG w)) sid = Some (Some self')
           \<and> same_frame self self'"
proof -
  obtain out self' evs where sd: "SessionData_chat env self msgs authKey ragConfig useRAG = (out, self', evs)"
    by (cases "SessionData_chat env self msgs authKey ragConfig useRAG")
  from chat_present(2) [OF assms sd]
  have "stored (snd (chat env sid msgs authKey ragConfig useRAG w)) sid = Some (Some self')"
    by (simp add: stored_def update_conv')
  with SessionData_chat_frame [OF sd] show ?thesis by blast
qed

lemma chat_trace_shape:
  "\<exists>pre evs post.
     trace (snd (chat env sid msgs authKey ragConfig useRAG w)) =
       trace w @ Acquire # (pre @ evs @ post) @ [Release]
     \<and> quiet pre \<and> quiet post
     \<and> (\<forall>d. depth_after d evs = d \<and> (query_depths d evs = [] \<or> query_depths d evs = [d])
            \<and> list_all (\<lambda>l. d \<le> l) (levels d evs))
     \<and> (\<forall>m u. fst (chat env sid msgs authKey ragConfig useRAG w) = Inr (RetReply m u) \<longrightarrow>
          (\<forall>d. query_depths d evs = [d]))"
proof -
  obtain r w2 where get: "get_conversation env sid (acquire w) = (r, w2)"
    by (cases "get_conversation env sid (acquire w)")
  from get_conversation_trace [of env sid "acquire w"]
  obtain new0 where "trace (snd (get_conversation env sid (acquire w))) = trace (acquire w) @ new0"
    and q: "quiet new0"
    by (elim exE conjE)
  with get have new: "trace w2 = trace w @ Acquire # new0" by simp
  show ?thesis
  proof (cases r)
    case (Inl e)
    with get new have "trace (snd (chat env sid msgs authKey ragConfig useRAG w)) =
        trace w @ Acquire # ((new0 @ [LogError e]) @ [] @ []) @ [Release]"
      and "fst (chat env sid msgs authKey ragConfig useRAG w) = Inl e"
      by (simp_all add: chat_def Let_def)
    moreover have "quiet (new0 @ [LogError e])"
      using q by (intro quiet_append) simp_all
    ultimately show ?thesis
      by (intro exI [of _ "new0 @ [LogError e]"] exI [of _ "[]"]) simp
  next
    case (Inr conversation)
    show ?thesis
    proof (cases conversation)
      case None
      with Inr get new have "trace (snd (chat env sid msgs authKey ragConfig useRAG w)) =
          trace w @ Acquire # ((new0 @ [LogInfo, LogError AttributeError]) @ [] @ []) @ [Release]"
        and "fst (chat env sid msgs authKey ragConfig useRAG w) = Inl AttributeError"
        by (simp_all add: chat_def Let_def)
      moreover have "quiet (new0 @ [LogInfo] @ [LogError AttributeError])"
        using q by (intro quiet_append) simp_all
      ultimately show ?thesis
        by (intro exI [of _ "new0 @ [LogInfo, LogError AttributeError]"] exI [of _ "[]"]) simp
    next
      case (Some self)
      obtain out self' evs where
        sd: "SessionData_chat env self msgs authKey ragConfig useRAG = (out, self', evs)"
        by (cases "SessionData_chat env self msgs authKey ragConfig useRAG")
      define rest where "rest = (case out of Inl e \<Rightarrow> [LogError e] | Inr v \<Rightarrow> [])"
      have qrest: "quiet rest"
        by (simp add: rest_def split: sum.splits)
      have qpre: "quiet (new0 @ [LogInfo])"
        using q by (intro quiet_append) simp_all
      have evs: "\<forall>d. depth_after d evs = d \<and> (query_depths d evs = [] \<or> query_depths d evs = [d])
            \<and> list_all (\<lambda>l. d \<le> l) (levels d evs)"
        using SessionData_chat_events [OF sd] by blast
      from Some Inr get new sd
      have tr: "trace (snd (chat env sid msgs authKey ragConfig useRAG w)) =
          trace w @ Acquire # ((new0 @ [LogInfo]) @ evs @ rest) @ [Release]"
        and out: "fst (chat env sid msgs authKey ragConfig useRAG w) = out"
        by (simp_all add: chat_def Let_def rest_def split: sum.splits)
      have reply: "\<forall>m u. fst (chat env sid msgs authKey ragConfig useRAG w) = Inr (RetReply m u) \<longrightarrow>
          (\<forall>d. query_depths d evs = [d])"
      proof (intro allI impI)
        fix m u d
        assume "fst (chat env sid msgs authKey ragConfig useRAG w) = Inr (RetReply m u)"
        with out sd have "SessionData_chat env self msgs authKey ragConfig useRAG
            = (Inr (RetReply m u), self', evs)"
          by simp
        from SessionData_chat_reply [OF this] show "query_depths d evs = [d]"
          by auto
      qed
      from tr qpre qrest evs reply show ?thesis
        by (intro exI [of _ "new0 @ [LogInfo]"] exI [of _ evs] exI [of _ rest] conjI)
    qed
  qed
qed

subsection \<open>\<^verbatim>\<open>recycle_conversations\<close>\<close>

lemma recycle_scan_keeps:
  assumes "\<forall>k\<in>set ks. stored w k \<noteq> None"
  shows "conversationsDict (snd (recycle_scan env now ks acc w)) = conversationsDict w
       \<and> rlock (snd (recycle_scan env now ks acc w)) = rlock w"
  using assms
proof (induction ks arbitrary: acc w)
  case Nil
  show ?case by simp
next
  case (Cons k ks)
  then obtain v where v: "stored w k = Some v" by auto
  show ?case
  proof (cases v)
    case None
    with v show ?thesis by (simp add: get_conversation_present)
  next
    case (Some c)
    let ?w = "logger_info (release (acquire w))"
    from Cons.prems have "\<forall>k\<in>set ks. stored ?w k \<noteq> None" by simp
    from Cons.IH [OF this] v Some show ?thesis
      by (simp add: get_conversation_present)
  qed
qed

lemma expired_eq: "expired now r = (real_of_int (refreshedAt r + maxAge r) < now)"
  by (simp add: expired_def)

lemma recycle_scan_returns:
  assumes "\<forall>k\<in>set ks. \<exists>r. stored w k = Some (Some r) \<and> sessionId r = k"
  shows "fst (recycle_scan env now ks acc w) =
           Inr (acc @ filter (\<lambda>k. after_tick now (stored w k) = None) ks)"
  using assms
proof (induction ks arbitrary: acc w)
  case Nil
  show ?case by simp
next
  case (Cons k ks)
  then obtain r where r: "stored w k = Some (Some r)" "sessionId r = k" by auto
  let ?w = "logger_info (release (acquire w))"
  from Cons.prems have "\<forall>k\<in>set ks. \<exists>r. stored ?w k = Some (Some r) \<and> sessionId r = k" by simp
  from Cons.IH [OF this] r show ?case
    by (simp add: get_conversation_present after_tick_def expired_eq)
qed

lemma recycle_scan_asserts:
  assumes "\<forall>k\<in>set ks. stored w k \<noteq> None" and "\<exists>k\<in>set ks. stored w k = Some None"
  shows "fst (recycle_scan env now ks acc w) = Inl AssertionError"
  using assms
proof (induction ks arbitrary: acc w)
  case Nil
  then show ?case by simp
next
  case (Cons k ks)
  then obtain v where v: "stored w k = Some v" by auto
  show ?case
  proof (cases v)
    case None
    with v show ?thesis by (simp add: get_conversation_present)
  next
    case (Some c)
    let ?w = "logger_info (release (acquire w))"
    from Cons.prems(1) have 1: "\<forall>k\<in>set ks. stored ?w k \<noteq> None" by simp
    from Cons.prems(2) v Some have 2: "\<exists>k\<in>set ks. stored ?w k = Some None" by auto
    from Cons.IH [OF 1 2] v Some show ?thesis
      by (simp add: get_conversation_present)
  qed
qed

lemma recycle_remove_stored:
  "stored (recycle_remove ids w) k = (if k \<in> set ids then None else stored w k)"
  by (induction ids arbitrary: w) (simp_all add: remove_conversation_stored)

lemma recycle_remove_rlock [simp]: "rlock (recycle_remove ids w) = rlock w"
  by (induction ids arbitrary: w) simp_all

lemma keys_present:
  "\<forall>k\<in>set (map fst (conversationsDict w)). stored w k \<noteq> None"
  by (simp add: stored_def map_of_eq_None_iff)

lemma recycle_conversations_asserts:
  assumes "stored w k = Some None"
  shows "fst (recycle_conversations env w) = Inl AssertionError"
proof -
  let ?w1 = "acquire (logger_info w)"
  let ?ks = "map fst (conversationsDict w)"
  from assms have "k \<in> set ?ks"
    by (metis map_of_eq_None_iff option.distinct(1) set_map stored_def)
  with assms have 2: "\<exists>k\<in>set ?ks. stored ?w1 k = Some None" by auto
  from keys_present [of w] have 1: "\<forall>k\<in>set ?ks. stored ?w1 k \<noteq> None" by simp
  from recycle_scan_asserts [OF 1 2, of env "now_ms env" "[]"] show ?thesis
    by (cases "recycle_scan env (now_ms env) ?ks [] ?w1")
       (simp add: recycle_conversations_def Let_def)
qed

lemma recycle_scan_start:
  "conversationsDict (snd (recycle_scan env now (map fst (conversationsDict w))
      [] (acquire (logger_info w)))) = conversationsDict w"
  "rlock (snd (recycle_scan env now (map fst (conversationsDict w))
      [] (acquire (logger_info w)))) = Suc (rlock w)"
  using recycle_scan_keeps [of "map fst (conversationsDict w)" "acquire (logger_info w)" env now "[]"]
    keys_present [of w]
  by simp_all

lemma recycle_conversations_rlock:
  "rlock (snd (recycle_conversations env w)) = rlock w"
proof -
  obtain r w2 where scan: "recycle_scan env (now_ms env) (map fst (conversationsDict w)) []
      (acquire (logger_info w)) = (r, w2)"
    by (cases "recycle_scan env (now_ms env) (map fst (conversationsDict w)) [] (acquire (logger_info w))")
  with recycle_scan_start(2) [of env "now_ms env" w] have "rlock w2 = Suc (rlock w)" by simp
  with scan show ?thesis
    by (simp add: recycle_conversations_def Let_def split: sum.splits)
qed

lemma recycle_conversations_raises:
  assumes "fst (recycle_conversations env w) = Inl e"
  shows "conversationsDict (snd (recycle_conversations env w)) = conversationsDict w"
    and "\<exists>tr. trace (snd (recycle_conversations env w)) = tr @ [LogError e, Release]"
proof -
  obtain r w2 where scan: "recycle_scan env (now_ms env) (map fst (conversationsDict w)) []
      (acquire (logger_info w)) = (r, w2)"
    by (cases "recycle_scan env (now_ms env) (map fst (conversationsDict w)) [] (acquire (logger_info w))")
  with recycle_scan_start(1) [of env "now_ms env" w] have d: "conversationsDict w2 = conversationsDict w"
    by simp
  from scan assms have r: "r = Inl e"
    by (simp add: recycle_conversations_def Let_def split: sum.splits)
  with scan d show "conversationsDict (snd (recycle_conversations env w)) = conversationsDict w"
    by (simp add: recycle_conversations_def Let_def)
  from scan r have "trace (snd (recycle_conversations env w)) = trace w2 @ [LogError e, Release]"
    by (simp add: recycle_conversations_def Let_def)
  then show "\<exists>tr. trace (snd (recycle_conversations env w)) = tr @ [LogError e, Release]"
    by (rule exI)
qed

lemma recycle_conversations_stored:
  "stored (snd (recycle_conversations env w)) k = None
   \<or> stored (snd (recycle_conversations env w)) k = stored w k"
proof -
  obtain r w2 where scan: "recycle_scan env (now_ms env) (map fst (conversationsDict w)) []
      (acquire (logger_info w)) = (r, w2)"
    by (cases "recycle_scan env (now_ms env) (map fst (conversationsDict w)) [] (acquire (logger_info w))")
  with recycle_scan_start(1) [of env "now_ms env" w] have "stored w2 k = stored w k"
    by (simp add: stored_def)
  with scan show ?thesis
    by (simp add: recycle_conversations_def Let_def recycle_remove_stored split: sum.splits)
qed

lemma store_okD:
  assumes "store_ok w" "stored w k = Some v"
  shows "\<exists>r. v = Some r \<and> sessionId r = k \<and> refreshedAt r = createdAt r"
proof -
  from assms(2) have "(k, v) \<in> set (conversationsDict w)"
    by (simp add: stored_def map_of_SomeD)
  with assms(1) have "record_ok (k, v)" by (simp add: store_ok_def list_all_iff)
  then show ?thesis by (simp add: record_ok_def split: option.splits)
qed

lemma recycle_conversations_ok:
  assumes "store_ok w"
  shows "fst (recycle_conversations env w) = Inr ()"
    and "stored (snd (recycle_conversations env w)) k = after_tick (now_ms env) (stored w k)"
proof -
  let ?w1 = "acquire (logger_info w)"
  let ?ks = "map fst (conversationsDict w)"
  have present: "\<forall>k\<in>set ?ks. \<exists>r. stored ?w1 k = Some (Some r) \<and> sessionId r = k"
  proof
    fix k assume "k \<in> set ?ks"
    then obtain v where "stored w k = Some v" using keys_present [of w] by auto
    with store_okD [OF assms this] show "\<exists>r. stored ?w1 k = Some (Some r) \<and> sessionId r = k"
      by auto
  qed
  obtain r w2 where scan: "recycle_scan env (now_ms env) ?ks [] ?w1 = (r, w2)"
    by (cases "recycle_scan env (now_ms env) ?ks [] ?w1")
  from recycle_scan_returns [OF present, of env "now_ms env" "[]"] scan
  have r: "r = Inr (filter (\<lambda>k. after_tick (now_ms env) (stored w k) = None) ?ks)" by simp
  from recycle_scan_start(1) [of env "now_ms env" w] scan
  have d: "stored w2 k = stored w k" by (simp add: stored_def)
  from scan r show "fst (recycle_conversations env w) = Inr ()"
    by (simp add: recycle_conversations_def Let_def)
  have "stored (snd (recycle_conversations env w)) k =
      (if k \<in> set ?ks \<and> after_tick (now_ms env) (stored w k) = None then None else stored w k)"
    using scan r d by (simp add: recycle_conversations_def Let_def recycle_remove_stored)
  also have "\<dots> = after_tick (now_ms env) (stored w k)"
  proof (cases "stored w k")
    case None
    then show ?thesis by (simp add: after_tick_def)
  next
    case (Some v)
    then have "k \<in> set ?ks"
      by (metis keys_present map_of_eq_None_iff option.distinct(1) set_map stored_def)
    moreover from store_okD [OF assms Some] obtain c where "v = Some c" by auto
    ultimately show ?thesis using Some
      by (simp add: after_tick_def)
  qed
  finally show "stored (snd (recycle_conversations env w)) k = after_tick (now_ms env) (stored w k)" .
qed

subsection \<open>The dictionaries the module builds\<close>

lemma list_all_update:
  "list_all P al \<Longrightarrow> P (k, v) \<Longrightarrow> list_all P (AList.update k v al)"
  by (induction al) auto

lemma list_all_delete: "list_all P al \<Longrightarrow> list_all P (AList.delete k al)"
  by (simp add: AList.delete_eq list_all_iff)

lemma store_ok_simps [simp]:
  "store_ok (acquire w) = store_ok w" "store_ok (release w) = store_ok w"
  "store_ok (logger_info w) = store_ok w" "store_ok (logger_error e w) = store_ok w"
  "store_ok (emit es w) = store_ok w"
  by (simp_all add: store_ok_def)

lemma store_ok_store:
  "store_ok w \<Longrightarrow> sessionId sd = sid \<Longrightarrow> refreshedAt sd = createdAt sd \<Longrightarrow>
   store_ok (store sid sd w)"
  by (simp add: store_ok_def list_all_update record_ok_def)

lemma store_ok_same_dict:
  "conversationsDict w' = conversationsDict w \<Longrightarrow> store_ok w' = store_ok w"
  by (simp add: store_ok_def)

lemma store_ok_init [simp]: "store_ok world_init"
  by (simp add: store_ok_def world_init_def)

lemma store_ok_initialize:
  assumes "store_ok w"
  shows "store_ok (snd (initialize_conversation env sid cfg w))"
proof (cases "fst (construct_chatter env cfg)")
  case (Inl e)
  from initialize_raises(2) [OF Inl] assms show ?thesis by (simp add: store_ok_def)
next
  case (Inr ch)
  from initialize_returns(2) [OF Inr, of sid w] assms show ?thesis
    by (simp add: store_ok_def list_all_update record_ok_def SessionData_init_def)
qed

lemma store_ok_get:
  assumes "store_ok w"
  shows "store_ok (snd (get_conversation env sid w))"
proof (cases "stored w sid")
  case None
  show ?thesis
  proof (cases "fst (construct_chatter env defaultModelConfig)")
    case (Inl e)
    from get_conversation_absent_raises(2) [OF None Inl] assms show ?thesis
      by (simp add: store_ok_def)
  next
    case (Inr ch)
    from get_conversation_absent_returns(2) [OF None Inr] assms show ?thesis
      by (simp add: store_ok_def list_all_update record_ok_def SessionData_init_def)
  qed
next
  case (Some v)
  with assms show ?thesis by (simp add: get_conversation_present)
qed

lemma store_ok_remove:
  "store_ok w \<Longrightarrow> store_ok (remove_conversation sid w)"
  by (simp add: store_ok_def remove_conversation_dict list_all_delete)

lemma store_ok_recycle_remove:
  "store_ok w \<Longrightarrow> store_ok (recycle_remove ids w)"
  by (induction ids arbitrary: w) (simp_all add: store_ok_remove)

lemma store_ok_recycle:
  assumes "store_ok w"
  shows "store_ok (snd (recycle_conversations env w))"
proof -
  obtain r w2 where scan: "recycle_scan env (now_ms env) (map fst (conversationsDict w)) []
      (acquire (logger_info w)) = (r, w2)"
    by (cases "recycle_scan env (now_ms env) (map fst (conversationsDict w)) [] (acquire (logger_info w))")
  with recycle_scan_start(1) [of env "now_ms env" w] assms have "store_ok w2"
    by (simp add: store_ok_def)
  with scan show ?thesis
    by (simp add: recycle_conversations_def Let_def store_ok_recycle_remove split: sum.splits)
qed

lemma store_ok_chat:
  assumes "store_ok w"
  shows "store_ok (snd (chat env sid msgs authKey ragConfig useRAG w))"
proof -
  obtain r w2 where get: "get_conversation env sid (acquire w) = (r, w2)"
    by (cases "get_conversation env sid (acquire w)")
  from store_ok_get [of "acquire w" env sid] assms get have ok: "store_ok w2" by simp
  show ?thesis
  proof (cases r)
    case (Inl e)
    with get ok show ?thesis by (simp add: chat_def Let_def)
  next
    case (Inr conversation)
    show ?thesis
    proof (cases conversation)
      case None
      with Inr get ok show ?thesis by (simp add: chat_def Let_def)
    next
      case (Some self)
      with Inr get have "stored w2 sid = Some (Some self)"
        by (simp add: get_conversation_returns_stored)
      from store_okD [OF ok this] have self: "sessionId self = sid" "refreshedAt self = createdAt self"
        by simp_all
      obtain out self' evs where
        sd: "SessionData_chat env self msgs authKey ragConfig useRAG = (out, self', evs)"
        by (cases "SessionData_chat env self msgs authKey ragConfig useRAG")
      from SessionData_chat_frame [OF sd] self
      have "sessionId self' = sid" "refreshedAt self' = createdAt self'"
        by (simp_all add: same_frame_def)
      with ok have "store_ok (store sid self' (logger_info w2))"
        by (simp add: store_ok_store)
      with Some Inr get sd show ?thesis
        by (simp add: chat_def Let_def split: sum.splits)
    qed
  qed
qed

lemma reachable_via_store_ok: "reachable_via P w \<Longrightarrow> store_ok w"
proof (induction rule: reachable_via.induct)
  case start
  show ?case by simp
next
  case (after_initialize w sid env cfg)
  then show ?case by (simp add: store_ok_initialize)
next
  case (after_get w sid env)
  then show ?case by (simp add: store_ok_get)
next
  case (after_chat w sid env msgs authKey ragConfig useRAG)
  then show ?case by (simp add: store_ok_chat)
next
  case (after_has w sid)
  then show ?case by (simp add: has_conversation_eq)
next
  case (after_remove w sid)
  then show ?case by (simp add: store_ok_remove)
next
  case (after_recycle w env)
  then show ?case by (simp add: store_ok_recycle)
qed

lemma never_created_absent: "reachable_via (\<lambda>x. x \<noteq> s) w \<Longrightarrow> stored w s = None"
proof (induction rule: reachable_via.induct)
  case start
  show ?case by (simp add: stored_def world_init_def)
next
  case (after_initialize w sid env cfg)
  then show ?case by (simp add: initialize_stored_other)
next
  case (after_get w sid env)
  then show ?case by (simp add: get_conversation_stored_other)
next
  case (after_chat w sid env msgs authKey ragConfig useRAG)
  then show ?case by (simp add: chat_stored_other)
next
  case (after_has w sid)
  then show ?case by (simp add: has_conversation_eq)
next
  case (after_remove w sid)
  then show ?case by (simp add: remove_conversation_stored)
next
  case (after_recycle w env)
  with recycle_conversations_stored [of env w s] show ?case by auto
qed

subsection \<open>The example inputs\<close>


lemma construct_env0_default:
  "construct_chatter env0 defaultModelConfig =
     (Inr (new_chatter GptConversation ''gpt-3.5-turbo''), [LogInfo])"
  by (simp add: construct_chatter_def env0_def defaultModelConfig_def subscript_def raise_if_def)


lemma chat_configure_fresh:
  "msgs \<noteq> [] \<Longrightarrow>
   chat_configure env0 session_fresh msgs (Some ''k'') rag0 False = Inr session_configured"
  by (simp add: chat_configure_def env0_def session_fresh_def session_configured_def rag0_def
      new_chatter_def falsy_def subscript_opt_def subscript_def raise_if_def Let_def)

lemma SessionData_chat_hello:
  "SessionData_chat env0 session_fresh hello (Some ''k'') rag0 False =
     (Inr (RetReply ''re: hello'' (PDict [(''total_tokens'', PInt 1)])),
      session_configured\<lparr>chatter := Some
        ((the (chatter session_configured))\<lparr>messages := [HumanMessage ''hello'']\<rparr>)\<rparr>,
      [EngineQuery [] ''hello''])"
proof -
  have n: "hello \<noteq> []" by (simp add: hello_def)
  have "SessionData_chat env0 session_fresh hello (Some ''k'') rag0 False =
      chat_query env0 session_configured hello"
    by (simp add: SessionData_chat_def chat_configure_fresh [OF n])
  also have "\<dots> = (Inr (RetReply ''re: hello'' (PDict [(''total_tokens'', PInt 1)])),
      session_configured\<lparr>chatter := Some
        ((the (chatter session_configured))\<lparr>messages := [HumanMessage ''hello'']\<rparr>)\<rparr>,
      [EngineQuery [] ''hello''])"
    by (simp add: chat_query_def hello_def session_configured_def setup_messages_def env0_def
        Let_def)
  finally show ?thesis .
qed

lemma chat_configure_abc:
  "msgs \<noteq> [] \<Longrightarrow>
   chat_configure env0 session_abc msgs (Some ''k'') rag0 False = Inr session_abc_configured"
  by (simp add: chat_configure_def env0_def session_abc_def session_abc_configured_def rag0_def
      falsy_def subscript_opt_def subscript_def raise_if_def Let_def)

lemma SessionData_chat_dialogue:
  "fst (SessionData_chat env0 session_fresh dialogue (Some ''k'') rag0 False) =
     Inr (RetReply ''re: how are you'' (PDict [(''total_tokens'', PInt 1)]))"
proof -
  have n: "dialogue \<noteq> []" by (simp add: dialogue_def)
  have "SessionData_chat env0 session_fresh dialogue (Some ''k'') rag0 False =
      chat_query env0 session_configured dialogue"
    by (simp add: SessionData_chat_def chat_configure_fresh [OF n])
  then show ?thesis
    by (simp add: chat_query_def dialogue_def session_configured_def setup_messages_def env0_def
        Let_def split: prod.splits)
qed

section \<open>The claims\<close>

text \<open>
  Claim C1, as stated: the lock is released before the query to the engine is issued.
  On a world in which the lock is free, \<^verbatim>\<open>chat\<close> on an existing session acquires the
  lock, and the query reaches the engine while the lock is held at level 1; the lock is
  released only afterwards.
\<close>

theorem chat_holds_lock_during_query:
  "rlock world_fresh = 0
   \<and> trace (snd (chat env0 ''abc'' hello (Some ''k'') rag0 False world_fresh)) =
       [Acquire, Acquire, Release, LogInfo, EngineQuery [] ''hello'', Release]
   \<and> query_depths 0 (trace (snd (chat env0 ''abc'' hello (Some ''k'') rag0 False world_fresh))) = [1]"
proof -
  have p: "stored world_fresh ''abc'' = Some (Some session_fresh)"
    by (simp add: stored_def world_fresh_def)
  from chat_present(4) [OF p SessionData_chat_hello] show ?thesis
    by (simp add: world_fresh_def)
qed

text \<open>
  Claim C1, amended. For every call of the module-level \<^verbatim>\<open>chat\<close>, entered with the
  lock at level \<open>rlock w\<close>: the first thing the call does is to acquire the lock and the
  last thing it does, when it returns or raises, is to release it; in between the lock
  never falls below one level above the level of entry, and every query to the engine
  is issued in between, at exactly that level; a call that returns a reply has issued
  exactly one query. The lock is thus held from entry to exit, across the query of the
  engine, and is back at the level of entry only when the call ends.
\<close>

theorem chat_queries_under_lock:
  "\<exists>mid. trace (snd (chat env sid msgs authKey ragConfig useRAG w)) =
            trace w @ Acquire # mid @ [Release]
     \<and> list_all (\<lambda>l. Suc (rlock w) \<le> l) (levels (Suc (rlock w)) mid)
     \<and> depth_after (Suc (rlock w)) mid = Suc (rlock w)
     \<and> list_all (\<lambda>d. d = Suc (rlock w)) (query_depths (Suc (rlock w)) mid)
     \<and> (\<forall>msg usage. fst (chat env sid msgs authKey ragConfig useRAG w) = Inr (RetReply msg usage)
           \<longrightarrow> query_depths (Suc (rlock w)) mid = [Suc (rlock w)])
     \<and> rlock (snd (chat env sid msgs authKey ragConfig useRAG w)) = rlock w"
proof -
  from chat_trace_shape [of env sid msgs authKey ragConfig useRAG w]
  obtain pre evs post where
    tr: "trace (snd (chat env sid msgs authKey ragConfig useRAG w)) =
       trace w @ Acquire # (pre @ evs @ post) @ [Release]"
    and pre: "quiet pre" and post: "quiet post"
    and evs: "\<forall>d. depth_after d evs = d \<and> (query_depths d evs = [] \<or> query_depths d evs = [d])
            \<and> list_all (\<lambda>l. d \<le> l) (levels d evs)"
    and reply: "\<forall>m u. fst (chat env sid msgs authKey ragConfig useRAG w) = Inr (RetReply m u) \<longrightarrow>
          (\<forall>d. query_depths d evs = [d])"
    by (elim exE conjE)
  let ?mid = "pre @ evs @ post"
  let ?d = "Suc (rlock w)"
  from evs have e: "depth_after ?d evs = ?d"
    "query_depths ?d evs = [] \<or> query_depths ?d evs = [?d]"
    "list_all (\<lambda>l. ?d \<le> l) (levels ?d evs)"
    by simp_all
  have q: "query_depths ?d ?mid = query_depths ?d evs"
    using quietD(1,2) [OF pre] quietD(2) [OF post] e(1)
    by (simp add: depth_after_append query_depths_append)
  have 1: "list_all (\<lambda>l. ?d \<le> l) (levels ?d ?mid)"
    using quietD(1,3) [OF pre, of ?d] quietD(3) [OF post, of ?d] e(1,3)
    by (simp add: levels_append depth_after_append)
  have 2: "depth_after ?d ?mid = ?d"
    using quietD(1) [OF pre] quietD(1) [OF post] e(1)
    by (simp add: depth_after_append)
  have 3: "list_all (\<lambda>d. d = ?d) (query_depths ?d ?mid)"
    using e(2) unfolding q by auto
  have 4: "\<forall>msg usage. fst (chat env sid msgs authKey ragConfig useRAG w) = Inr (RetReply msg usage)
           \<longrightarrow> query_depths ?d ?mid = [?d]"
    using reply unfolding q by simp
  from tr 1 2 3 4 chat_rlock [of env sid msgs authKey ragConfig useRAG w]
  show ?thesis by (intro exI [of _ ?mid] conjI)
qed

theorem chat_queries_under_lock_witness:
  "rlock world_fresh = 0
   \<and> fst (chat env0 ''abc'' dialogue (Some ''k'') rag0 False world_fresh) =
       Inr (RetReply ''re: how are you'' (PDict [(''total_tokens'', PInt 1)]))
   \<and> (\<exists>mid. trace (snd (chat env0 ''abc'' dialogue (Some ''k'') rag0 False world_fresh)) =
              Acquire # mid @ [Release]
          \<and> list_all (\<lambda>l. 1 \<le> l) (levels 1 mid)
          \<and> query_depths 1 mid = [1])
   \<and> rlock (snd (chat env0 ''abc'' dialogue (Some ''k'') rag0 False world_fresh)) = 0"
proof -
  have p: "stored world_fresh ''abc'' = Some (Some session_fresh)"
    by (simp add: stored_def world_fresh_def)
  obtain out self' evs where sd:
    "SessionData_chat env0 session_fresh dialogue (Some ''k'') rag0 False = (out, self', evs)"
    by (cases "SessionData_chat env0 session_fresh dialogue (Some ''k'') rag0 False")
  with SessionData_chat_dialogue
  have "out = Inr (RetReply ''re: how are you'' (PDict [(''total_tokens'', PInt 1)]))"
    by simp
  with chat_present(1) [OF p sd]
  have f: "fst (chat env0 ''abc'' dialogue (Some ''k'') rag0 False world_fresh) =
       Inr (RetReply ''re: how are you'' (PDict [(''total_tokens'', PInt 1)]))"
    by simp
  have z: "rlock world_fresh = 0" "trace world_fresh = []"
    by (simp_all add: world_fresh_def)
  from chat_queries_under_lock [of env0 "''abc''" dialogue "Some ''k''" rag0 False world_fresh] f z
  show ?thesis by auto
qed

text \<open>
  Claim C2 says that \<^verbatim>\<open>get_conversation\<close> takes the configuration of its caller and
  gives it to the record it creates, and the unit test \<^verbatim>\<open>test_get_conversation\<close> calls it
  so. The function of this module has the single parameter \<^verbatim>\<open>sessionId\<close>: on an empty
  dictionary the call of the test raises \<^verbatim>\<open>TypeError\<close> and stores nothing, and the call
  with the id alone creates and returns a record whose configuration is
  \<^verbatim>\<open>defaultModelConfig\<close>, which is not the configuration of the test. The code does not
  do what the claim and the test say.
\<close>

theorem get_conversation_rejects_config:
  "get_conversation_kw env0 ''balahbalah'' (Some test_get_modelConfig) world_init =
     (Inl TypeError, world_init)
   \<and> stored (snd (get_conversation_kw env0 ''balahbalah'' (Some test_get_modelConfig) world_init))
       ''balahbalah'' = None
   \<and> fst (get_conversation_kw env0 ''balahbalah'' None world_init) =
       Inr (Some \<lparr>modelConfig = defaultModelConfig,
                   chatter = Some (new_chatter GptConversation ''gpt-3.5-turbo''),
                   sessionId = ''balahbalah'', createdAt = 1000, refreshedAt = 1000,
                   maxAge = MAX_AGE\<rparr>)
   \<and> defaultModelConfig \<noteq> test_get_modelConfig"
proof -
  have a: "stored world_init ''balahbalah'' = None"
    by (simp add: stored_def world_init_def)
  have c: "fst (construct_chatter env0 defaultModelConfig)
      = Inr (new_chatter GptConversation ''gpt-3.5-turbo'')"
    by (simp add: construct_env0_default)
  have t: "py_int (now_ms env0) = 1000"
    by (simp add: env0_def py_int_def)
  from get_conversation_absent_returns(1) [OF a c] t a show ?thesis
    by (simp add: get_conversation_kw_def SessionData_init_def test_get_modelConfig_def)
qed

text \<open>
  What \<^verbatim>\<open>get_conversation\<close> does with the id alone: it returns the stored value when
  there is one for the id and leaves the dictionary as it is; otherwise, when the
  engine can be constructed, it builds a record whose \<^verbatim>\<open>createdAt\<close> and \<^verbatim>\<open>refreshedAt\<close>
  are the reading of the clock in whole milliseconds and whose \<^verbatim>\<open>modelConfig\<close> is
  \<^verbatim>\<open>defaultModelConfig\<close>, stores it under the id and returns it; when the construction
  raises, the error is raised and the dictionary is as before. Other ids are not
  affected.
\<close>

lemma get_conversation_gets_or_creates:
  "(\<forall>v. stored w sid = Some v \<longrightarrow>
      fst (get_conversation env sid w) = Inr v
      \<and> conversationsDict (snd (get_conversation env sid w)) = conversationsDict w)
   \<and> (\<forall>ch. stored w sid = None \<and> fst (construct_chatter env defaultModelConfig) = Inr ch \<longrightarrow>
      fst (get_conversation env sid w) =
        Inr (Some \<lparr>modelConfig = defaultModelConfig, chatter = Some ch, sessionId = sid,
                    createdAt = py_int (now_ms env), refreshedAt = py_int (now_ms env),
                    maxAge = MAX_AGE\<rparr>)
      \<and> stored (snd (get_conversation env sid w)) sid =
        Some (Some \<lparr>modelConfig = defaultModelConfig, chatter = Some ch, sessionId = sid,
                    createdAt = py_int (now_ms env), refreshedAt = py_int (now_ms env),
                    maxAge = MAX_AGE\<rparr>))
   \<and> (\<forall>e. stored w sid = None \<and> fst (construct_chatter env defaultModelConfig) = Inl e \<longrightarrow>
      fst (get_conversation env sid w) = Inl e
      \<and> conversationsDict (snd (get_conversation env sid w)) = conversationsDict w)
   \<and> (\<forall>k. k \<noteq> sid \<longrightarrow> stored (snd (get_conversation env sid w)) k = stored w k)
   \<and> rlock (snd (get_conversation env sid w)) = rlock w"
proof (intro conjI allI impI)
  fix v assume "stored w sid = Some v"
  then show "fst (get_conversation env sid w) = Inr v"
    and "conversationsDict (snd (get_conversation env sid w)) = conversationsDict w"
    by (simp_all add: get_conversation_present)
next
  fix ch assume "stored w sid = None \<and> fst (construct_chatter env defaultModelConfig) = Inr ch"
  then have a: "stored w sid = None" and c: "fst (construct_chatter env defaultModelConfig) = Inr ch"
    by simp_all
  from get_conversation_absent_returns(1) [OF a c]
  show "fst (get_conversation env sid w) =
        Inr (Some \<lparr>modelConfig = defaultModelConfig, chatter = Some ch, sessionId = sid,
                    createdAt = py_int (now_ms env), refreshedAt = py_int (now_ms env),
                    maxAge = MAX_AGE\<rparr>)"
    by (simp add: SessionData_init_def)
  from get_conversation_absent_returns(2) [OF a c]
  show "stored (snd (get_conversation env sid w)) sid =
        Some (Some \<lparr>modelConfig = defaultModelConfig, chatter = Some ch, sessionId = sid,
                    createdAt = py_int (now_ms env), refreshedAt = py_int (now_ms env),
                    maxAge = MAX_AGE\<rparr>)"
    by (simp add: stored_def update_conv' SessionData_init_def)
next
  fix e assume "stored w sid = None \<and> fst (construct_chatter env defaultModelConfig) = Inl e"
  then have a: "stored w sid = None" and c: "fst (construct_chatter env defaultModelConfig) = Inl e"
    by simp_all
  from get_conversation_absent_raises [OF a c]
  show "fst (get_conversation env sid w) = Inl e"
    and "conversationsDict (snd (get_conversation env sid w)) = conversationsDict w"
    by simp_all
next
  fix k assume "k \<noteq> sid"
  then show "stored (snd (get_conversation env sid w)) k = stored w k"
    by (rule get_conversation_stored_other)
next
  show "rlock (snd (get_conversation env sid w)) = rlock w"
    by (rule get_conversation_rlock)
qed

lemma get_conversation_gets_or_creates_example:
  "stored world_abc ''abc'' = Some (Some session_abc)
   \<and> fst (get_conversation env0 ''abc'' world_abc) = Inr (Some session_abc)
   \<and> conversationsDict (snd (get_conversation env0 ''abc'' world_abc)) = conversationsDict world_abc
   \<and> stored world_abc ''new'' = None
   \<and> stored (snd (get_conversation env0 ''new'' world_abc)) ''new'' =
        Some (Some \<lparr>modelConfig = defaultModelConfig,
                    chatter = Some (new_chatter GptConversation ''gpt-3.5-turbo''),
                    sessionId = ''new'', createdAt = 1000, refreshedAt = 1000,
                    maxAge = MAX_AGE\<rparr>)
   \<and> fst (get_conversation env_bad ''new'' world_abc) = Inl (External ''invalid api key'')
   \<and> conversationsDict (snd (get_conversation env_bad ''new'' world_abc)) = conversationsDict world_abc"
proof -
  have p: "stored world_abc ''abc'' = Some (Some session_abc)"
    and a: "stored world_abc ''new'' = None"
    by (simp_all add: stored_def world_abc_def)
  have c: "fst (construct_chatter env0 defaultModelConfig)
      = Inr (new_chatter GptConversation ''gpt-3.5-turbo'')"
    by (simp add: construct_env0_default)
  have b: "fst (construct_chatter env_bad defaultModelConfig) = Inl (External ''invalid api key'')"
    by (simp add: construct_chatter_def env_bad_def env0_def defaultModelConfig_def subscript_def
        raise_if_def)
  have t: "py_int (now_ms env0) = 1000"
    by (simp add: env0_def py_int_def)
  from get_conversation_gets_or_creates [of world_abc "''abc''" env0]
    get_conversation_gets_or_creates [of world_abc "''new''" env0]
    get_conversation_gets_or_creates [of world_abc "''new''" env_bad]
    p a c b t
  show ?thesis by simp
qed

text \<open>
  Claim C3. For an engine that is not an \<^verbatim>\<open>AzureGptConversation\<close> (the variants that
  are given their key by the caller), with no key configured yet (\<^verbatim>\<open>openai.api_key\<close>
  empty, or the engine without its attribute \<^verbatim>\<open>chat\<close>) and \<^verbatim>\<open>authKey\<close> absent or empty: a
  call of \<^verbatim>\<open>chat\<close> with messages to answer ends at the key check and returns \<^verbatim>\<open>False\<close>,
  the value by which the method signals the missing authorization; no key is set, the
  record is untouched, the engine is not queried and no reply is returned. The
  module-level \<^verbatim>\<open>chat\<close> on a stored session hands the same value to its caller and
  leaves the dictionary as it is. (An empty list of messages is answered with \<^verbatim>\<open>None\<close>
  before the key is looked at, see \<open>chat_empty_messages\<close>.)
\<close>

theorem chat_without_key:
  assumes "chatter self = Some ch"
    and "msgs \<noteq> []"
    and "cls ch \<noteq> AzureGptConversation"
    and "falsy (openai_api_key env) \<or> \<not> has_chat ch"
    and "falsy authKey"
  shows "SessionData_chat env self msgs authKey ragConfig useRAG = (Inr RetFalse, self, [])
       \<and> (stored w sid = Some (Some self) \<longrightarrow>
            fst (chat env sid msgs authKey ragConfig useRAG w) = Inr RetFalse
            \<and> conversationsDict (snd (chat env sid msgs authKey ragConfig useRAG w)) =
              conversationsDict w
            \<and> trace (snd (chat env sid msgs authKey ragConfig useRAG w)) =
              trace w @ [Acquire, Acquire, Release, LogInfo, Release])"
proof -
  have sd: "SessionData_chat env self msgs authKey ragConfig useRAG = (Inr RetFalse, self, [])"
    using assms by (simp add: SessionData_chat_def chat_configure_def Let_def)
  have "fst (chat env sid msgs authKey ragConfig useRAG w) = Inr RetFalse
            \<and> conversationsDict (snd (chat env sid msgs authKey ragConfig useRAG w)) =
              conversationsDict w
            \<and> trace (snd (chat env sid msgs authKey ragConfig useRAG w)) =
              trace w @ [Acquire, Acquire, Release, LogInfo, Release]"
    if present: "stored w sid = Some (Some self)"
    using chat_present [OF present sd] present
    by (simp add: stored_def update_triv)
  with sd show ?thesis by blast
qed

theorem chat_without_key_witness:
  "SessionData_chat env0 session_fresh hello None rag0 False = (Inr RetFalse, session_fresh, [])
   \<and> fst (chat env0 ''abc'' hello None rag0 False world_fresh) = Inr RetFalse
   \<and> conversationsDict (snd (chat env0 ''abc'' hello None rag0 False world_fresh)) =
        [(''abc'', Some session_fresh)]
   \<and> trace (snd (chat env0 ''abc'' hello None rag0 False world_fresh)) =
        [Acquire, Acquire, Release, LogInfo, Release]"
proof -
  have 1: "chatter session_fresh = Some (new_chatter GptConversation ''gpt-3.5-turbo'')"
    by (simp add: session_fresh_def)
  have 2: "cls (new_chatter GptConversation ''gpt-3.5-turbo'') \<noteq> AzureGptConversation"
    by (simp add: new_chatter_def)
  have 3: "falsy (openai_api_key env0) \<or> \<not> has_chat (new_chatter GptConversation ''gpt-3.5-turbo'')"
    by (simp add: falsy_def env0_def)
  have 4: "falsy None"
    by (simp add: falsy_def)
  have 5: "stored world_fresh ''abc'' = Some (Some session_fresh)"
    by (simp add: stored_def world_fresh_def)
  have 6: "hello \<noteq> []"
    by (simp add: hello_def)
  from chat_without_key [OF 1 6 2 3 4, where ragConfig = rag0 and useRAG = False
      and w = world_fresh and sid = "''abc''"] 5
  show ?thesis by (simp add: world_fresh_def)
qed

text \<open>
  Claim C4. On a dictionary as the module builds it, a recycling tick at time \<open>now\<close>
  raises nothing and removes exactly the expired records: a record with
  \<^verbatim>\<open>refreshedAt\<close> \<open>T0\<close> and \<^verbatim>\<open>maxAge\<close> \<open>M\<close> is gone after the tick iff \<open>T0 + M < now\<close>, and
  is still stored, unchanged, iff \<open>now \<le> T0 + M\<close>; nothing else changes; a tick on an
  empty dictionary leaves it empty.
\<close>

theorem recycle_removes_exactly_expired:
  assumes "store_ok w"
  shows "fst (recycle_conversations env w) = Inr ()
   \<and> (\<forall>k. stored (snd (recycle_conversations env w)) k = after_tick (now_ms env) (stored w k))
   \<and> (\<forall>k r. stored w k = Some (Some r) \<longrightarrow>
        (stored (snd (recycle_conversations env w)) k = None
           \<longleftrightarrow> real_of_int (refreshedAt r) + real_of_int (maxAge r) < now_ms env)
        \<and> (stored (snd (recycle_conversations env w)) k = Some (Some r)
           \<longleftrightarrow> now_ms env \<le> real_of_int (refreshedAt r) + real_of_int (maxAge r)))
   \<and> (conversationsDict w = [] \<longrightarrow> conversationsDict (snd (recycle_conversations env w)) = [])
   \<and> rlock (snd (recycle_conversations env w)) = rlock w"
proof (intro conjI allI impI)
  show "fst (recycle_conversations env w) = Inr ()"
    by (rule recycle_conversations_ok(1) [OF assms])
next
  fix k
  show "stored (snd (recycle_conversations env w)) k = after_tick (now_ms env) (stored w k)"
    by (rule recycle_conversations_ok(2) [OF assms])
next
  fix k r assume "stored w k = Some (Some r)"
  with recycle_conversations_ok(2) [OF assms, of env k]
  show "stored (snd (recycle_conversations env w)) k = None
           \<longleftrightarrow> real_of_int (refreshedAt r) + real_of_int (maxAge r) < now_ms env"
    and "stored (snd (recycle_conversations env w)) k = Some (Some r)
           \<longleftrightarrow> now_ms env \<le> real_of_int (refreshedAt r) + real_of_int (maxAge r)"
    by (auto simp: after_tick_def expired_def)
next
  assume "conversationsDict w = []"
  then have "stored w k = None" for k by (simp add: stored_def)
  with recycle_conversations_ok(2) [OF assms, of env]
  have "map_of (conversationsDict (snd (recycle_conversations env w))) = Map.empty"
    by (simp add: stored_def after_tick_def fun_eq_iff)
  then show "conversationsDict (snd (recycle_conversations env w)) = []"
    by simp
next
  show "rlock (snd (recycle_conversations env w)) = rlock w"
    by (rule recycle_conversations_rlock)
qed

theorem recycle_removes_exactly_expired_witness:
  "store_ok world_abc
   \<and> stored world_abc ''abc'' = Some (Some session_abc)
   \<and> refreshedAt session_abc = 1000 \<and> maxAge session_abc = MAX_AGE
   \<and> stored (snd (recycle_conversations env_after_deadline world_abc)) ''abc'' = None
   \<and> stored (snd (recycle_conversations env_before_deadline world_abc)) ''abc''
       = Some (Some session_abc)
   \<and> store_ok world_init
   \<and> fst (recycle_conversations env0 world_init) = Inr ()
   \<and> conversationsDict (snd (recycle_conversations env0 world_init)) = []"
proof -
  have ok: "store_ok world_abc"
    by (simp add: store_ok_def world_abc_def record_ok_def session_abc_def)
  have s: "stored world_abc ''abc'' = Some (Some session_abc)"
    by (simp add: stored_def world_abc_def)
  have f: "refreshedAt session_abc = 1000" "maxAge session_abc = MAX_AGE"
    by (simp_all add: session_abc_def)
  have a: "now_ms env_after_deadline = 1000 + real_of_int MAX_AGE + 1 / 2"
    and b: "now_ms env_before_deadline = 1000 + real_of_int MAX_AGE - 1 / 2"
    by (simp_all add: env_after_deadline_def env_before_deadline_def)
  have e: "conversationsDict world_init = []"
    by (simp add: world_init_def)
  have "stored (snd (recycle_conversations env_after_deadline world_abc)) ''abc'' = None
      \<longleftrightarrow> real_of_int (refreshedAt session_abc) + real_of_int (maxAge session_abc)
            < now_ms env_after_deadline"
    using recycle_removes_exactly_expired [OF ok, of env_after_deadline] s by blast
  then have 1: "stored (snd (recycle_conversations env_after_deadline world_abc)) ''abc'' = None"
    by (simp add: f a)
  have "stored (snd (recycle_conversations env_before_deadline world_abc)) ''abc''
        = Some (Some session_abc)
      \<longleftrightarrow> now_ms env_before_deadline
            \<le> real_of_int (refreshedAt session_abc) + real_of_int (maxAge session_abc)"
    using recycle_removes_exactly_expired [OF ok, of env_before_deadline] s by blast
  then have 2: "stored (snd (recycle_conversations env_before_deadline world_abc)) ''abc''
        = Some (Some session_abc)"
    by (simp add: f b)
  from recycle_removes_exactly_expired [OF store_ok_init, of env0] e
  have 3: "fst (recycle_conversations env0 world_init) = Inr ()"
    "conversationsDict (snd (recycle_conversations env0 world_init)) = []"
    by simp_all
  from ok s f 1 2 3 show ?thesis by simp
qed

text \<open>
  Claim C5, as stated: an error raised during the scan is logged and the tick returns
  normally. On a dictionary that holds \<^verbatim>\<open>None\<close> for a key the assertion of the scan
  fails; the handler logs the error and raises it again, so the tick ends with that
  error.
\<close>

theorem recycle_raises_on_failure:
  "conversationsDict world_none = [(''x'', None)]
   \<and> recycle_conversations env0 world_none =
       (Inl AssertionError,
        \<lparr>conversationsDict = [(''x'', None)], rlock = 0,
         trace = [LogInfo, Acquire, Acquire, Release, LogError AssertionError, Release]\<rparr>)"
  by (simp add: recycle_conversations_def get_conversation_def world_none_def Let_def
      acquire_def release_def logger_info_def logger_error_def emit_def)

text \<open>
  Claim C5, amended. When the scan of a recycling tick raises an error, the tick logs
  it, releases the lock and raises the same error to the caller of
  \<^verbatim>\<open>recycle_conversations\<close>: the error is not swallowed. The scan raises, with
  \<^verbatim>\<open>AssertionError\<close>, whenever the dictionary holds \<^verbatim>\<open>None\<close> for a key. A tick that
  raises leaves the dictionary as it was, and the last two events of its trace are the
  logging of the error and the release of the lock. The lock is back at its level after
  every tick. On a dictionary as the module builds it, and so in every world the module
  can reach, the tick raises nothing.
\<close>

theorem recycle_logs_and_raises:
  "rlock (snd (recycle_conversations env w)) = rlock w
   \<and> (\<forall>e w2. recycle_scan env (now_ms env) (map fst (conversationsDict w)) []
                (acquire (logger_info w)) = (Inl e, w2) \<longrightarrow>
        recycle_conversations env w = (Inl e, release (logger_error e w2)))
   \<and> (\<forall>k. stored w k = Some None \<longrightarrow> fst (recycle_conversations env w) = Inl AssertionError)
   \<and> (\<forall>e. fst (recycle_conversations env w) = Inl e \<longrightarrow>
        conversationsDict (snd (recycle_conversations env w)) = conversationsDict w
        \<and> (\<exists>tr. trace (snd (recycle_conversations env w)) = tr @ [LogError e, Release]))
   \<and> (store_ok w \<longrightarrow> fst (recycle_conversations env w) = Inr ())
   \<and> (reachable w \<longrightarrow> fst (recycle_conversations env w) = Inr ())"
proof (intro conjI allI impI)
  show "rlock (snd (recycle_conversations env w)) = rlock w"
    by (rule recycle_conversations_rlock)
next
  fix e w2
  assume "recycle_scan env (now_ms env) (map fst (conversationsDict w)) []
      (acquire (logger_info w)) = (Inl e, w2)"
  then show "recycle_conversations env w = (Inl e, release (logger_error e w2))"
    by (simp add: recycle_conversations_def Let_def)
next
  fix k assume "stored w k = Some None"
  then show "fst (recycle_conversations env w) = Inl AssertionError"
    by (rule recycle_conversations_asserts)
next
  fix e assume "fst (recycle_conversations env w) = Inl e"
  from recycle_conversations_raises [OF this]
  show "conversationsDict (snd (recycle_conversations env w)) = conversationsDict w"
    and "\<exists>tr. trace (snd (recycle_conversations env w)) = tr @ [LogError e, Release]"
    by simp_all
next
  assume "store_ok w"
  then show "fst (recycle_conversations env w) = Inr ()"
    by (rule recycle_conversations_ok(1))
next
  assume "reachable w"
  then have "store_ok w"
    by (simp add: reachable_def reachable_via_store_ok)
  then show "fst (recycle_conversations env w) = Inr ()"
    by (rule recycle_conversations_ok(1))
qed

theorem recycle_logs_and_raises_witness:
  "stored world_none ''x'' = Some None
   \<and> recycle_scan env0 (now_ms env0) (map fst (conversationsDict world_none)) []
        (acquire (logger_info world_none)) =
       (Inl AssertionError, release (acquire (acquire (logger_info world_none))))
   \<and> recycle_conversations env0 world_none =
       (Inl AssertionError,
        release (logger_error AssertionError
          (release (acquire (acquire (logger_info world_none))))))
   \<and> conversationsDict (snd (recycle_conversations env0 world_none)) = [(''x'', None)]
   \<and> (\<exists>tr. trace (snd (recycle_conversations env0 world_none)) =
         tr @ [LogError AssertionError, Release])
   \<and> store_ok world_abc
   \<and> fst (recycle_conversations env0 world_abc) = Inr ()
   \<and> reachable world_init
   \<and> fst (recycle_conversations env0 world_init) = Inr ()"
proof -
  have n: "stored world_none ''x'' = Some None"
    by (simp add: stored_def world_none_def)
  have s: "recycle_scan env0 (now_ms env0) (map fst (conversationsDict world_none)) []
        (acquire (logger_info world_none)) =
       (Inl AssertionError, release (acquire (acquire (logger_info world_none))))"
    by (simp add: world_none_def get_conversation_present stored_def)
  have d: "conversationsDict world_none = [(''x'', None)]"
    by (simp add: world_none_def)
  have ok: "store_ok world_abc"
    by (simp add: store_ok_def world_abc_def record_ok_def session_abc_def)
  have r: "reachable world_init"
    unfolding reachable_def by (rule reachable_via.start)
  have 1: "recycle_conversations env0 world_none =
       (Inl AssertionError,
        release (logger_error AssertionError
          (release (acquire (acquire (logger_info world_none))))))"
    using recycle_logs_and_raises [of env0 world_none] s by blast
  have 2: "fst (recycle_conversations env0 world_none) = Inl AssertionError"
    using recycle_logs_and_raises [of env0 world_none] n by blast
  have 3: "conversationsDict (snd (recycle_conversations env0 world_none)) = [(''x'', None)]"
    "\<exists>tr. trace (snd (recycle_conversations env0 world_none)) =
         tr @ [LogError AssertionError, Release]"
    using recycle_logs_and_raises [of env0 world_none] 2 d by auto
  have 4: "fst (recycle_conversations env0 world_abc) = Inr ()"
    using recycle_logs_and_raises [of env0 world_abc] ok by blast
  have 5: "fst (recycle_conversations env0 world_init) = Inr ()"
    using recycle_logs_and_raises [of env0 world_init] r by blast
  from n s 1 3 ok 4 r 5 show ?thesis by (intro conjI)
qed



text \<open>
  Claim C7. In every world the module can reach, a stored record has \<^verbatim>\<open>refreshedAt\<close>
  equal to \<^verbatim>\<open>createdAt\<close>. A call of \<^verbatim>\<open>chat\<close> (on this or any other session) leaves the
  record stored with the same \<^verbatim>\<open>sessionId\<close>, \<^verbatim>\<open>modelConfig\<close>, \<^verbatim>\<open>createdAt\<close>,
  \<^verbatim>\<open>refreshedAt\<close> and \<^verbatim>\<open>maxAge\<close>, so that it still expires exactly when \<open>now\<close> exceeds its
  creation time plus \<^verbatim>\<open>maxAge\<close>; \<^verbatim>\<open>has_conversation\<close> and the lookup of
  \<^verbatim>\<open>get_conversation\<close> leave the record as it is, and a recycling tick either removes it
  or leaves it as it is.
\<close>

theorem timestamps_fixed_at_creation:
  assumes "reachable w" and "stored w k = Some (Some r)"
  shows "refreshedAt r = createdAt r
   \<and> (\<exists>r'. stored (snd (chat env sid msgs authKey ragConfig useRAG w)) k = Some (Some r')
          \<and> same_frame r r'
          \<and> (\<forall>now. expired now r' \<longleftrightarrow> real_of_int (createdAt r) + real_of_int (maxAge r) < now))
   \<and> stored (snd (has_conversation sid w)) k = Some (Some r)
   \<and> fst (get_conversation env k w) = Inr (Some r)
   \<and> stored (snd (get_conversation env sid w)) k = Some (Some r)
   \<and> (stored (snd (recycle_conversations env w)) k = None
        \<or> stored (snd (recycle_conversations env w)) k = Some (Some r))"
proof (intro conjI)
  from assms(1) have ok: "store_ok w"
    by (simp add: reachable_def reachable_via_store_ok)
  from store_okD [OF ok assms(2)] show eq: "refreshedAt r = createdAt r"
    by simp
  have "\<exists>r'. stored (snd (chat env sid msgs authKey ragConfig useRAG w)) k = Some (Some r')
          \<and> same_frame r r'"
  proof (cases "k = sid")
    case True
    with chat_stored_same [of w sid r env msgs authKey ragConfig useRAG] assms(2)
    show ?thesis by simp
  next
    case False
    have "stored (snd (chat env sid msgs authKey ragConfig useRAG w)) k = Some (Some r)
        \<and> same_frame r r"
      using chat_stored_other [OF False, of env msgs authKey ragConfig useRAG w] assms(2)
      by simp
    then show ?thesis by (rule exI)
  qed
  then obtain r' where r': "stored (snd (chat env sid msgs authKey ragConfig useRAG w)) k
      = Some (Some r')" "same_frame r r'"
    by (elim exE conjE)
  from r'(2) eq have "\<forall>now. expired now r' \<longleftrightarrow>
      real_of_int (createdAt r) + real_of_int (maxAge r) < now"
    by (simp add: same_frame_def expired_def)
  with r' show "\<exists>r'. stored (snd (chat env sid msgs authKey ragConfig useRAG w)) k = Some (Some r')
          \<and> same_frame r r'
          \<and> (\<forall>now. expired now r' \<longleftrightarrow> real_of_int (createdAt r) + real_of_int (maxAge r) < now)"
    by (intro exI conjI)
  show "stored (snd (has_conversation sid w)) k = Some (Some r)"
    using assms(2) by (simp add: has_conversation_eq)
  show "fst (get_conversation env k w) = Inr (Some r)"
    using assms(2) by (simp add: get_conversation_present)
  show "stored (snd (get_conversation env sid w)) k = Some (Some r)"
  proof (cases "k = sid")
    case True
    with assms(2) show ?thesis by (simp add: get_conversation_present)
  next
    case False
    with assms(2) show ?thesis by (simp add: get_conversation_stored_other)
  qed
  show "stored (snd (recycle_conversations env w)) k = None
        \<or> stored (snd (recycle_conversations env w)) k = Some (Some r)"
    using recycle_conversations_stored [of env w k] assms(2) by simp
qed

theorem timestamps_fixed_at_creation_witness:
  "reachable (snd (initialize_conversation env0 ''abc'' testModelConfig world_init))
   \<and> stored (snd (initialize_conversation env0 ''abc'' testModelConfig world_init)) ''abc'' =
       Some (Some (SessionData_init env0 ''abc'' testModelConfig
                    (Some (new_chatter GptConversation ''gpt-3.5-turbo''))))
   \<and> now_ms env_later = 5000
   \<and> (\<exists>r'. stored (snd (chat env_later ''abc'' hello (Some ''k'') rag0 False
                (snd (initialize_conversation env0 ''abc'' testModelConfig world_init)))) ''abc''
              = Some (Some r')
            \<and> createdAt r' = 1000 \<and> refreshedAt r' = 1000 \<and> maxAge r' = MAX_AGE
            \<and> sessionId r' = ''abc'' \<and> modelConfig r' = testModelConfig)"
proof -
  let ?w = "snd (initialize_conversation env0 ''abc'' testModelConfig world_init)"
  let ?r = "SessionData_init env0 ''abc'' testModelConfig
              (Some (new_chatter GptConversation ''gpt-3.5-turbo''))"
  have c: "fst (construct_chatter env0 testModelConfig)
      = Inr (new_chatter GptConversation ''gpt-3.5-turbo'')"
    by (simp add: construct_env0)
  have r: "reachable ?w"
    unfolding reachable_def by (intro reachable_via.after_initialize reachable_via.start TrueI)
  have s: "stored ?w ''abc'' = Some (Some ?r)"
    by (simp add: stored_def initialize_returns(2) [OF c] update_conv')
  have t: "now_ms env_later = 5000"
    by (simp add: env_later_def)
  have f: "createdAt ?r = 1000" "maxAge ?r = MAX_AGE" "sessionId ?r = ''abc''"
      "modelConfig ?r = testModelConfig"
    by (simp_all add: SessionData_init_def env0_def py_int_def)
  from timestamps_fixed_at_creation [OF r s, of env_later "''abc''" hello "Some ''k''" rag0 False]
  obtain r' where "stored (snd (chat env_later ''abc'' hello (Some ''k'') rag0 False ?w)) ''abc''
      = Some (Some r')" and "same_frame ?r r'" and "refreshedAt ?r = createdAt ?r"
    by (elim exE conjE)
  with f have "stored (snd (chat env_later ''abc'' hello (Some ''k'') rag0 False ?w)) ''abc''
      = Some (Some r')
    \<and> createdAt r' = 1000 \<and> refreshedAt r' = 1000 \<and> maxAge r' = MAX_AGE
    \<and> sessionId r' = ''abc'' \<and> modelConfig r' = testModelConfig"
    by (simp add: same_frame_def)
  then have "\<exists>r'. stored (snd (chat env_later ''abc'' hello (Some ''k'') rag0 False ?w)) ''abc''
      = Some (Some r')
    \<and> createdAt r' = 1000 \<and> refreshedAt r' = 1000 \<and> maxAge r' = MAX_AGE
    \<and> sessionId r' = ''abc'' \<and> modelConfig r' = testModelConfig"
    by (rule exI)
  with r s t show ?thesis by simp
qed

text \<open>
  Claim C8. If the construction of the conversation engine fails during
  \<^verbatim>\<open>initialize_conversation\<close> (the body raises \<open>e\<close> before the assignment to the
  dictionary), the call raises \<open>e\<close> to its caller, the dictionary is what it was
  before the call, for every key, and the lock is back at its level.
\<close>

theorem initialize_failure_inserts_nothing:
  assumes "fst (construct_chatter env cfg) = Inl e"
  shows "fst (initialize_conversation env sid cfg w) = Inl e
       \<and> conversationsDict (snd (initialize_conversation env sid cfg w)) = conversationsDict w
       \<and> (\<forall>k. stored (snd (initialize_conversation env sid cfg w)) k = stored w k)
       \<and> rlock (snd (initialize_conversation env sid cfg w)) = rlock w"
  using initialize_raises [OF assms] by (simp add: stored_def)

theorem initialize_failure_inserts_nothing_witness:
  "fst (construct_chatter env_bad testModelConfig) = Inl (External ''invalid api key'')
   \<and> fst (initialize_conversation env_bad ''new'' testModelConfig world_abc)
       = Inl (External ''invalid api key'')
   \<and> conversationsDict (snd (initialize_conversation env_bad ''new'' testModelConfig world_abc))
       = [(''abc'', Some session_abc)]
   \<and> stored (snd (initialize_conversation env_bad ''new'' testModelConfig world_abc)) ''new''
       = None"
proof -
  have h: "fst (construct_chatter env_bad testModelConfig) = Inl (External ''invalid api key'')"
    by (simp add: construct_env_bad)
  show ?thesis
    using h initialize_failure_inserts_nothing [OF h, of "''new''" world_abc]
    by (simp add: world_abc_def stored_def)
qed

text \<open>
  Claim C9. For a non-empty list of messages, once \<^verbatim>\<open>SessionData.chat\<close> has passed its
  guards and configured the engine: the history of the engine is reset and receives
  the messages before the last one, in order, each by the append operation of its role
  (\<^verbatim>\<open>system\<close>, \<^verbatim>\<open>assistant\<close>, \<^verbatim>\<open>user\<close>), the messages of any other role being dropped;
  the content of the last message is the query; the reply text and the usage counters
  of the engine are returned, and an error of the engine is logged and raised.
\<close>

theorem chat_replays_then_queries:
  assumes "msgs \<noteq> []"
    and "chat_configure env self msgs authKey ragConfig useRAG = Inr self1"
  shows "\<exists>ch. chatter self1 = Some ch
     \<and> SessionData_chat env self msgs authKey ragConfig useRAG =
        (case query env (ch\<lparr>messages := replay (butlast msgs)\<rparr>) (content (last msgs)) of
           Inl e \<Rightarrow>
             (Inl e, self1\<lparr>chatter := Some (ch\<lparr>messages := replay (butlast msgs)\<rparr>)\<rparr>,
              [EngineQuery (replay (butlast msgs)) (content (last msgs)), LogError e])
         | Inr ((msg, usage, correction), ch') \<Rightarrow>
             (Inr (RetReply msg usage), self1\<lparr>chatter := Some ch'\<rparr>,
              [EngineQuery (replay (butlast msgs)) (content (last msgs))]))"
proof -
  from chat_configure_frame(2) [OF assms(2)] obtain ch where ch: "chatter self1 = Some ch"
    by auto
  have "SessionData_chat env self msgs authKey ragConfig useRAG = chat_query env self1 msgs"
    using assms(2) by (simp add: SessionData_chat_def)
  also have "\<dots> =
        (case query env (ch\<lparr>messages := replay (butlast msgs)\<rparr>) (content (last msgs)) of
           Inl e \<Rightarrow>
             (Inl e, self1\<lparr>chatter := Some (ch\<lparr>messages := replay (butlast msgs)\<rparr>)\<rparr>,
              [EngineQuery (replay (butlast msgs)) (content (last msgs)), LogError e])
         | Inr ((msg, usage, correction), ch') \<Rightarrow>
             (Inr (RetReply msg usage), self1\<lparr>chatter := Some ch'\<rparr>,
              [EngineQuery (replay (butlast msgs)) (content (last msgs))]))"
    using assms(1) ch
    by (simp add: chat_query_def Let_def setup_messages_eq split: sum.splits prod.splits)
  finally show ?thesis using ch by blast
qed

theorem chat_replays_then_queries_witness:
  "messages (the (chatter session_abc)) = [HumanMessage ''hello'']
   \<and> replay (butlast dialogue) = [SystemMessage ''be brief'', HumanMessage ''hello'', AIMessage ''hi'']
   \<and> fst (SessionData_chat env0 session_abc dialogue (Some ''k'') rag0 False) =
       Inr (RetReply ''re: how are you'' (PDict [(''total_tokens'', PInt 1)]))
   \<and> snd (snd (SessionData_chat env0 session_abc dialogue (Some ''k'') rag0 False)) =
       [EngineQuery [SystemMessage ''be brief'', HumanMessage ''hello'', AIMessage ''hi'']
          ''how are you'']"
proof -
  have n: "dialogue \<noteq> []"
    by (simp add: dialogue_def)
  have h: "messages (the (chatter session_abc)) = [HumanMessage ''hello'']"
    by (simp add: session_abc_def)
  have r: "replay (butlast dialogue) =
      [SystemMessage ''be brief'', HumanMessage ''hello'', AIMessage ''hi'']"
    by (simp add: dialogue_def replay_def replayed_def List.map_filter_simps)
  have l: "content (last dialogue) = ''how are you''"
    by (simp add: dialogue_def)
  from chat_replays_then_queries [OF n chat_configure_abc [OF n]] r l h
  show ?thesis
    by (auto simp: session_abc_configured_def env0_def)
qed

text \<open>
  Claim C10. \<^verbatim>\<open>has_conversation s\<close> is false in every world reached without a creating
  call on \<open>s\<close>, true right after \<^verbatim>\<open>initialize_conversation\<close> or \<^verbatim>\<open>get_conversation\<close> has
  returned for \<open>s\<close>, and false right after \<^verbatim>\<open>remove_conversation s\<close>. Removing an id
  that is not stored changes neither the dictionary nor the lock, and removing twice
  leaves the state that removing once leaves. \<^verbatim>\<open>has_conversation\<close> itself changes
  nothing.
\<close>

theorem has_tracks_creation_and_removal:
  "(reachable_via (\<lambda>x. x \<noteq> s) w \<longrightarrow> \<not> fst (has_conversation s w))
   \<and> (fst (initialize_conversation env s cfg w) = Inr () \<longrightarrow>
        fst (has_conversation s (snd (initialize_conversation env s cfg w))))
   \<and> (\<forall>v. fst (get_conversation env s w) = Inr v \<longrightarrow>
        fst (has_conversation s (snd (get_conversation env s w))))
   \<and> \<not> fst (has_conversation s (remove_conversation s w))
   \<and> (\<not> fst (has_conversation s w) \<longrightarrow>
        conversationsDict (remove_conversation s w) = conversationsDict w
        \<and> rlock (remove_conversation s w) = rlock w)
   \<and> conversationsDict (remove_conversation s (remove_conversation s w))
        = conversationsDict (remove_conversation s w)
   \<and> rlock (remove_conversation s (remove_conversation s w)) = rlock (remove_conversation s w)
   \<and> conversationsDict (snd (has_conversation s w)) = conversationsDict w
   \<and> rlock (snd (has_conversation s w)) = rlock w"
proof (intro conjI impI allI)
  assume "reachable_via (\<lambda>x. x \<noteq> s) w"
  then show "\<not> fst (has_conversation s w)"
    by (simp add: has_conversation_eq never_created_absent)
next
  assume ok: "fst (initialize_conversation env s cfg w) = Inr ()"
  show "fst (has_conversation s (snd (initialize_conversation env s cfg w)))"
  proof (cases "fst (construct_chatter env cfg)")
    case (Inl e)
    from initialize_raises(1) [OF Inl, of s w] ok show ?thesis by simp
  next
    case (Inr ch)
    from initialize_returns(2) [OF Inr, of s w] show ?thesis
      by (simp add: has_conversation_eq stored_def update_conv')
  qed
next
  fix v assume "fst (get_conversation env s w) = Inr v"
  then have "get_conversation env s w = (Inr v, snd (get_conversation env s w))"
    by (cases "get_conversation env s w") simp
  from get_conversation_returns_stored [OF this]
  show "fst (has_conversation s (snd (get_conversation env s w)))"
    by (simp add: has_conversation_eq)
next
  show "\<not> fst (has_conversation s (remove_conversation s w))"
    by (simp add: has_conversation_eq remove_conversation_stored)
next
  assume "\<not> fst (has_conversation s w)"
  then show "conversationsDict (remove_conversation s w) = conversationsDict w"
    by (simp add: has_conversation_eq remove_conversation_dict stored_def map_of_eq_None_iff)
next
  show "rlock (remove_conversation s w) = rlock w" by simp
next
  show "conversationsDict (remove_conversation s (remove_conversation s w))
        = conversationsDict (remove_conversation s w)"
    by (simp add: remove_conversation_dict delete_idem)
next
  show "rlock (remove_conversation s (remove_conversation s w)) = rlock (remove_conversation s w)"
    by simp
next
  show "conversationsDict (snd (has_conversation s w)) = conversationsDict w"
    by (simp add: has_conversation_eq)
next
  show "rlock (snd (has_conversation s w)) = rlock w"
    by (simp add: has_conversation_eq)
qed

theorem has_tracks_creation_and_removal_witness:
  "reachable_via (\<lambda>x. x \<noteq> ''abc'') world_init
   \<and> \<not> fst (has_conversation ''abc'' world_init)
   \<and> fst (initialize_conversation env0 ''abc'' testModelConfig world_init) = Inr ()
   \<and> fst (has_conversation ''abc'' (snd (initialize_conversation env0 ''abc'' testModelConfig world_init)))
   \<and> fst (get_conversation env0 ''abc'' world_init)
        = Inr (Some (SessionData_init env0 ''abc'' defaultModelConfig
                      (Some (new_chatter GptConversation ''gpt-3.5-turbo''))))
   \<and> fst (has_conversation ''abc'' (snd (get_conversation env0 ''abc'' world_init)))
   \<and> conversationsDict (remove_conversation ''abc'' world_init) = []"
proof -
  have r: "reachable_via (\<lambda>x. x \<noteq> ''abc'') world_init"
    by (rule reachable_via.start)
  have i: "fst (initialize_conversation env0 ''abc'' testModelConfig world_init) = Inr ()"
    by (rule initialize_returns(1)) (simp add: construct_env0)
  have a: "stored world_init ''abc'' = None"
    by (simp add: stored_def world_init_def)
  have g: "fst (get_conversation env0 ''abc'' world_init)
        = Inr (Some (SessionData_init env0 ''abc'' defaultModelConfig
                      (Some (new_chatter GptConversation ''gpt-3.5-turbo''))))"
    by (rule get_conversation_absent_returns(1) [OF a]) (simp add: construct_env0_default)
  have d: "conversationsDict world_init = []"
    by (simp add: world_init_def)
  from has_tracks_creation_and_removal [of "''abc''" world_init env0 testModelConfig] r i g d
  show ?thesis by simp
qed

end
